theory Spec2Isabelle
  imports Complex_Main "HOL-Library.Multiset" "HOL-Library.Sublist"
begin

section \<open>Python values used by the travel planner\<close>

text \<open>
  The planner is Python. A \<open>str\<close> is modelled as a \<open>string\<close> holding the UTF-8 bytes of
  the text: the literals of the source that are not ASCII (the rupee sign, the emoji of the
  report) are written byte by byte. \<open>str.lower\<close>, \<open>str.upper\<close> and \<open>str.strip\<close> are
  modelled on ASCII text, where they are what Python computes: a byte above 127 is left as
  it is, whereas Python also maps capitals and trims white space beyond ASCII. The digits
  \<open>strptime\<close> reads are the ASCII digits, whereas Python's also reads the decimal digits
  of other scripts. A statement that depends on text being lower-cased or trimmed, or on
  text failing to parse, is therefore made for ASCII text (\<open>is_ascii\<close>).

  An exception is a value: its class and the text \<open>str(e)\<close> gives. A function that can
  raise returns \<open>py_error + 'a\<close>, with \<open>Inl\<close> for the exception.
\<close>

datatype exc_type = ValueError | AttributeError | TypeError | IndexError | KeyError
  | ZeroDivisionError | FileNotFoundError

type_synonym py_error = "exc_type \<times> string"

definition isspace :: "char \<Rightarrow> bool" where
  \<comment> \<open>the ASCII characters for which \<open>str.isspace\<close> holds\<close>
  "isspace c = (c \<in> set [CHR 0x09, CHR 0x0A, CHR 0x0B, CHR 0x0C, CHR 0x0D,
                           CHR 0x1C, CHR 0x1D, CHR 0x1E, CHR 0x1F, CHR 0x20])"

definition str_strip :: "string \<Rightarrow> string" where
  "str_strip s = rev (dropWhile isspace (rev (dropWhile isspace s)))"

definition ascii_upper :: string where
  "ascii_upper = ''ABCDEFGHIJKLMNOPQRSTUVWXYZ''"

definition ascii_lower :: string where
  "ascii_lower = ''abcdefghijklmnopqrstuvwxyz''"

definition lower_char :: "char \<Rightarrow> char" where
  "lower_char c = (case map_of (zip ascii_upper ascii_lower) c of Some l \<Rightarrow> l | None \<Rightarrow> c)"

definition upper_char :: "char \<Rightarrow> char" where
  "upper_char c = (case map_of (zip ascii_lower ascii_upper) c of Some u \<Rightarrow> u | None \<Rightarrow> c)"

definition str_lower :: "string \<Rightarrow> string" where
  "str_lower s = map lower_char s"

definition str_upper :: "string \<Rightarrow> string" where
  "str_upper s = map upper_char s"

definition is_ascii :: "string \<Rightarrow> bool" where
  "is_ascii s = list_all (\<lambda>c. (of_char c :: nat) < 128) s"

definition nl :: string where
  "nl = [CHR 0x0A]"

definition rupee :: string where
  \<comment> \<open>U+20B9 in UTF-8\<close>
  "rupee = [CHR 0xE2, CHR 0x82, CHR 0xB9]"

text \<open>Decimal text of an integer: \<open>str(i)\<close>, and \<open>f"{i:,}"\<close> with its thousands separators.\<close>

fun digits :: "nat \<Rightarrow> string" where
  "digits n = (if n < 10 then [''0123456789'' ! n]
               else digits (n div 10) @ [''0123456789'' ! (n mod 10)])"

declare digits.simps [simp del]

definition str_int :: "int \<Rightarrow> string" where
  "str_int i = (if i < 0 then CHR ''-'' # digits (nat (- i)) else digits (nat i))"

fun group3 :: "string \<Rightarrow> string" where
  "group3 ds = (if length ds \<le> 3 then ds
               else group3 (take (length ds - 3) ds) @ '','' @ drop (length ds - 3) ds)"

declare group3.simps [simp del]

definition fmt_commas :: "int \<Rightarrow> string" where
  "fmt_commas i = (if i < 0 then CHR ''-'' # group3 (digits (nat (- i)))
                   else group3 (digits (nat i)))"

text \<open>
  A value read from JSON, or about to be written as JSON. \<open>JFloat m e\<close> is the finite
  float \<open>m * 2 ^ e\<close>; \<open>JDict\<close> lists the items of a Python dict in insertion order, so its
  keys are distinct and \<open>map_of\<close> is the lookup.
\<close>

datatype json = JNull | JBool bool | JInt int | JFloat int int | JStr string
  | JList "json list" | JDict "(string \<times> json) list"

definition dict_get :: "json \<Rightarrow> string \<Rightarrow> json \<Rightarrow> py_error + json" where
  \<comment> \<open>\<open>x.get(k, d)\<close>: only a dict has the method\<close>
  "dict_get x k d =
     (case x of
        JDict kvs \<Rightarrow> Inr (case map_of kvs k of None \<Rightarrow> d | Some v \<Rightarrow> v)
      | _ \<Rightarrow> Inl (AttributeError, ''object has no attribute '' @ [CHR 0x27] @ ''get'' @ [CHR 0x27]))"

definition json_lower :: "json \<Rightarrow> py_error + string" where
  \<comment> \<open>\<open>v.lower()\<close>: only a str has the method\<close>
  "json_lower v =
     (case v of
        JStr s \<Rightarrow> Inr (str_lower s)
      | _ \<Rightarrow> Inl (AttributeError, ''object has no attribute '' @ [CHR 0x27] @ ''lower'' @ [CHR 0x27]))"


section \<open>Calendar dates: \<open>datetime.strptime(s, "%Y-%m-%d")\<close>\<close>

text \<open>
  \<open>strptime\<close> is CPython's: the format becomes the regular expression
  \<open>(\d\d\d\d)-(1[0-2]|0[1-9]|[1-9])-(3[0-1]|[1-2]\d|0[1-9]|[1-9]| [1-9])\<close>, matched at the
  start of the text with the alternatives tried in this order; text left over after the
  match, year 0 and a day the month does not have raise \<open>ValueError\<close>. The result is a
  \<open>datetime\<close> at midnight, so the difference of two results in days is the difference of
  their proleptic Gregorian ordinals. Digits are the ASCII digits.
\<close>

record date =
  year :: nat
  month :: nat
  day :: nat

definition is_leap :: "nat \<Rightarrow> bool" where
  "is_leap y = (y mod 4 = 0 \<and> (y mod 100 \<noteq> 0 \<or> y mod 400 = 0))"

definition days_before_year :: "nat \<Rightarrow> int" where
  "days_before_year y = (let p = int y - 1 in p * 365 + p div 4 - p div 100 + p div 400)"

definition DAYS_IN_MONTH :: "nat list" where
  "DAYS_IN_MONTH = [0, 31, 28, 31, 30, 31, 30, 31, 31, 30, 31, 30, 31]"

definition DAYS_BEFORE_MONTH :: "nat list" where
  "DAYS_BEFORE_MONTH = [0, 0, 31, 59, 90, 120, 151, 181, 212, 243, 273, 304, 334]"

definition days_in_month :: "nat \<Rightarrow> nat \<Rightarrow> nat" where
  "days_in_month y m = (if m = 2 \<and> is_leap y then 29 else DAYS_IN_MONTH ! m)"

definition days_before_month :: "nat \<Rightarrow> nat \<Rightarrow> nat" where
  "days_before_month y m = DAYS_BEFORE_MONTH ! m + (if m > 2 \<and> is_leap y then 1 else 0)"

definition toordinal :: "date \<Rightarrow> int" where
  "toordinal d = days_before_year (year d) + int (days_before_month (year d) (month d))
                 + int (day d)"

definition isdigit :: "char \<Rightarrow> bool" where
  "isdigit c = (48 \<le> (of_char c :: nat) \<and> (of_char c :: nat) \<le> 57)"

definition digit_val :: "char \<Rightarrow> nat" where
  "digit_val c = of_char c - 48"

definition in_range :: "char \<Rightarrow> char \<Rightarrow> char \<Rightarrow> bool" where
  \<comment> \<open>the character class \<open>[lo-hi]\<close>\<close>
  "in_range lo hi c = ((of_char lo :: nat) \<le> of_char c \<and> (of_char c :: nat) \<le> of_char hi)"

fun match_Y :: "string \<Rightarrow> (nat \<times> string) option" where
  "match_Y (a # b # c # d # rest) =
     (if isdigit a \<and> isdigit b \<and> isdigit c \<and> isdigit d
      then Some (1000 * digit_val a + 100 * digit_val b + 10 * digit_val c + digit_val d, rest)
      else None)"
| "match_Y _ = None"

fun two_chars :: "(char \<Rightarrow> bool) \<Rightarrow> (char \<Rightarrow> bool) \<Rightarrow> string \<Rightarrow> (nat \<times> string) list" where
  \<comment> \<open>one alternative made of two character classes; a blank counts as 0\<close>
  "two_chars p q (a # b # rest) =
     (if p a \<and> q b then [((if a = CHR '' '' then 0 else 10 * digit_val a) + digit_val b, rest)]
      else [])"
| "two_chars p q _ = []"

fun one_char :: "(char \<Rightarrow> bool) \<Rightarrow> string \<Rightarrow> (nat \<times> string) list" where
  "one_char p (a # rest) = (if p a then [(digit_val a, rest)] else [])"
| "one_char p [] = []"

definition match_m :: "string \<Rightarrow> (nat \<times> string) list" where
  \<comment> \<open>the ways \<open>1[0-2]|0[1-9]|[1-9]\<close> matches, in the order the matcher tries them\<close>
  "match_m s = two_chars (\<lambda>c. c = CHR ''1'') (in_range CHR ''0'' CHR ''2'') s
             @ two_chars (\<lambda>c. c = CHR ''0'') (in_range CHR ''1'' CHR ''9'') s
             @ one_char (in_range CHR ''1'' CHR ''9'') s"

definition match_d :: "string \<Rightarrow> (nat \<times> string) list" where
  \<comment> \<open>the ways \<open>3[0-1]|[1-2]\d|0[1-9]|[1-9]| [1-9]\<close> matches, in order\<close>
  "match_d s = two_chars (\<lambda>c. c = CHR ''3'') (in_range CHR ''0'' CHR ''1'') s
             @ two_chars (in_range CHR ''1'' CHR ''2'') isdigit s
             @ two_chars (\<lambda>c. c = CHR ''0'') (in_range CHR ''1'' CHR ''9'') s
             @ one_char (in_range CHR ''1'' CHR ''9'') s
             @ two_chars (\<lambda>c. c = CHR '' '') (in_range CHR ''1'' CHR ''9'') s"

fun after_dash :: "string \<Rightarrow> string option" where
  "after_dash (c # rest) = (if c = CHR ''-'' then Some rest else None)"
| "after_dash [] = None"

fun first_match :: "('a \<Rightarrow> 'b option) \<Rightarrow> 'a list \<Rightarrow> 'b option" where
  \<comment> \<open>backtracking: the first alternative after which the rest of the pattern matches\<close>
  "first_match k [] = None"
| "first_match k (x # xs) = (case k x of Some r \<Rightarrow> Some r | None \<Rightarrow> first_match k xs)"

definition regex_match :: "string \<Rightarrow> (nat \<times> nat \<times> nat \<times> string) option" where
  \<comment> \<open>year, month, day and the text after the match\<close>
  "regex_match s =
     (case match_Y s of
        None \<Rightarrow> None
      | Some (y, r1) \<Rightarrow>
          (case after_dash r1 of
             None \<Rightarrow> None
           | Some r2 \<Rightarrow>
               first_match
                 (\<lambda>(m, r3). case after_dash r3 of
                                None \<Rightarrow> None
                              | Some r4 \<Rightarrow> (case match_d r4 of
                                             [] \<Rightarrow> None
                                           | (d, r5) # _ \<Rightarrow> Some (y, m, d, r5)))
                 (match_m r2)))"

definition py_repr :: "string \<Rightarrow> string" where
  \<comment> \<open>\<open>repr\<close> of text without quotes, backslashes and control characters\<close>
  "py_repr s = [CHR 0x27] @ s @ [CHR 0x27]"

definition strptime :: "string \<Rightarrow> py_error + date" where
  "strptime s =
     (case regex_match s of
        None \<Rightarrow> Inl (ValueError, ''time data '' @ py_repr s @ '' does not match format ''
                                   @ py_repr ''%Y-%m-%d'')
      | Some (y, m, d, rest) \<Rightarrow>
          if rest \<noteq> [] then Inl (ValueError, ''unconverted data remains: '' @ rest)
          else if y = 0 then Inl (ValueError, ''year 0 is out of range'')
          else if d > days_in_month y m then Inl (ValueError, ''day is out of range for month'')
          else Inr \<lparr>year = y, month = m, day = d\<rparr>)"


section \<open>The trip orchestrator (\<open>src/agent/travel_agent.py\<close>)\<close>

text \<open>
  Of a \<open>HybridTravelAgent\<close>, \<open>plan_trip\<close> reads the provider tag and the agent executor.
  The executor is outside the repository: \<open>agent.invoke\<close> is a function from the query to
  what the call does, raising or returning a dict. The executor is \<open>None\<close> in demo mode.
\<close>

datatype invoke_outcome = Raised string | Returned "(string \<times> string) list"

record hybrid_agent =
  provider :: string
  agent :: "(string \<Rightarrow> invoke_outcome) option"

text \<open>The dict a call returns: its items in the order the source writes them.\<close>

type_synonym plan_result = "(string \<times> string) list"

definition activities :: "string list" where
  "activities = [''Beach relaxation & water sports'',
                 ''Heritage sites & local culture'',
                 ''Shopping & cuisine exploration'',
                 ''Adventure activities'',
                 ''Scenic tours & photography'']"

definition day_line :: "nat \<Rightarrow> string" where
  \<comment> \<open>the text one round of the loop appends\<close>
  "day_line i = nl @ ''   Day '' @ str_int (int i + 1) @ '': ''
                @ activities ! (i mod length activities)"

definition itinerary_head :: "string \<Rightarrow> string \<Rightarrow> int \<Rightarrow> string" where
  "itinerary_head source dest days =
     [CHR 0x0A, CHR 0xF0, CHR 0x9F, CHR 0x8C, CHR 0x8D] @ '' YOUR '' @ str_int days
     @ ''-DAY TRIP TO '' @ str_upper dest @ nl
     @ replicate 60 CHR ''=''
     @ [CHR 0x0A, CHR 0x0A, CHR 0xE2, CHR 0x9C, CHR 0x88, CHR 0xEF, CHR 0xB8, CHR 0x8F]
     @ ''  FLIGHT: IndiGo - '' @ rupee @ ''4,800'' @ nl @ ''    ''
     @ source @ '' '' @ [CHR 0xE2, CHR 0x86, CHR 0x92] @ '' '' @ dest
     @ '' | 2h 30m'' @ [CHR 0x0A, CHR 0x0A, CHR 0xF0, CHR 0x9F, CHR 0x8F, CHR 0xA8]
     @ '' HOTEL: Sea View Resort - '' @ rupee @ ''3,200/night'' @ nl
     @ ''    Rating: 4.5/5 | Beach access, Pool, WiFi''
     @ [CHR 0x0A, CHR 0x0A, CHR 0xF0, CHR 0x9F, CHR 0x8C, CHR 0xA4, CHR 0xEF, CHR 0xB8, CHR 0x8F]
     @ ''  WEATHER: Sunny, 28-32'' @ [CHR 0xC2, CHR 0xB0] @ ''C throughout trip''
     @ [CHR 0x0A, CHR 0x0A, CHR 0xF0, CHR 0x9F, CHR 0x93, CHR 0x85] @ '' ITINERARY:'' @ nl"

definition budget_line :: "int \<Rightarrow> string" where
  \<comment> \<open>the line of the report that states the total\<close>
  "budget_line tot = ''BUDGET: '' @ rupee @ fmt_commas tot @ nl"

definition itinerary_budget :: "int \<Rightarrow> int \<Rightarrow> string" where
  "itinerary_budget tot days =
     [CHR 0x0A, CHR 0x0A, CHR 0xF0, CHR 0x9F, CHR 0x92, CHR 0xB0] @ '' '' @ budget_line tot
     @ ''    Flight: '' @ rupee @ ''4,800'' @ nl
     @ ''    Hotel: '' @ rupee @ fmt_commas (3200 * days) @ nl
     @ ''    Food/Activities: '' @ rupee @ fmt_commas (800 * days) @ nl
     @ nl @ replicate 60 CHR ''='' @ nl"

definition demo_plan_trip ::
  "string \<Rightarrow> string \<Rightarrow> string \<Rightarrow> string \<Rightarrow> int option \<Rightarrow> py_error + plan_result" where
  "demo_plan_trip source dest start end_date budget =
     (case strptime start of
        Inl e \<Rightarrow> Inl e
      | Inr start_dt \<Rightarrow>
          (case strptime end_date of
             Inl e \<Rightarrow> Inl e
           | Inr end_dt \<Rightarrow>
               (let days = toordinal end_dt - toordinal start_dt + 1;
                    itinerary = itinerary_head source dest days;
                    itinerary = itinerary @ concat (map day_line [0 ..< nat days]);
                    tot = 4800 + (3200 * days) + (800 * days);
                    itinerary = itinerary @ itinerary_budget tot days
                in Inr [(''status'', ''success''),
                        (''provider'', ''demo''),
                        (''itinerary'', itinerary)])))"

definition error_result :: "string \<Rightarrow> string \<Rightarrow> plan_result" where
  "error_result prov msg = [(''status'', ''error''), (''provider'', prov), (''message'', msg)]"

definition plan_trip ::
  "hybrid_agent \<Rightarrow> string \<Rightarrow> string \<Rightarrow> string \<Rightarrow> string \<Rightarrow> int option \<Rightarrow> string option
     \<Rightarrow> py_error + plan_result" where
  "plan_trip self source destination start_date end_date budget preferences =
     (if provider self = ''demo''
      then demo_plan_trip source destination start_date end_date budget
      else
        (case strptime start_date of
           Inl e \<Rightarrow> Inl e
         | Inr start_dt \<Rightarrow>
             (case strptime end_date of
                Inl e \<Rightarrow> Inl e
              | Inr end_dt \<Rightarrow>
                  (let days = toordinal end_dt - toordinal start_dt + 1;
                       query = ''Plan a '' @ str_int days @ ''-day trip from '' @ source
                               @ '' to '' @ destination @ '' '' @ nl
                               @ ''from '' @ start_date @ '' to '' @ end_date @ ''.'';
                       query = (case budget of
                                  None \<Rightarrow> query
                                | Some b \<Rightarrow> if b \<noteq> 0
                                            then query @ '' Budget: '' @ rupee @ str_int b @ ''.''
                                            else query);
                       query = (case preferences of
                                  None \<Rightarrow> query
                                | Some p \<Rightarrow> if p \<noteq> []
                                            then query @ '' Preferences: '' @ p @ ''.''
                                            else query);
                       query = query @ '' Provide complete itinerary with flights, hotels, weather, activities, and budget.''
                   in Inr
                     (case agent self of
                        None \<Rightarrow> error_result (provider self)
                                  ([CHR 0x27] @ ''NoneType'' @ [CHR 0x27]
                                   @ '' object has no attribute '' @ py_repr ''invoke'')
                      | Some invoke \<Rightarrow>
                          (case invoke query of
                             Raised msg \<Rightarrow> error_result (provider self) msg
                           | Returned result \<Rightarrow>
                               (case map_of result ''output'' of
                                  None \<Rightarrow> error_result (provider self) (py_repr ''output'')
                                | Some out \<Rightarrow> [(''status'', ''success''),
                                               (''provider'', provider self),
                                               (''itinerary'', out)])))))))"

text \<open>
  The lookup tools of the agent return \<open>json.dumps\<close> of a dict; the model keeps the dict.
  \<open>_hotel_search\<close> never reads its input, and \<open>json.dumps\<close> of this dict cannot raise.
\<close>

definition hotel_search :: "string \<Rightarrow> json" where
  "hotel_search input_str =
     JDict [(''status'', JStr ''success''),
            (''hotels'', JList [JDict [(''name'', JStr ''Sea View Resort''),
                                       (''rating'', JFloat 9 (- 1)),
                                       (''price_per_night'', JInt 3200),
                                       (''amenities'', JList [JStr ''Pool'', JStr ''WiFi''])]])]"

definition itinerary_of :: "py_error + plan_result \<Rightarrow> string" where
  \<comment> \<open>\<open>result["itinerary"]\<close> of a returned dict, for stating what a report contains\<close>
  "itinerary_of r =
     (case r of
        Inl e \<Rightarrow> []
      | Inr d \<Rightarrow> (case map_of d ''itinerary'' of None \<Rightarrow> [] | Some t \<Rightarrow> t))"


section \<open>Data access (\<open>src/utils/data_loader.py\<close>)\<close>

text \<open>
  The disk maps a path to a file. \<open>json.load\<close> is the library's: a file either holds a
  JSON document or makes the decoder raise \<open>JSONDecodeError\<close> with some message.
\<close>

datatype disk_file = Malformed string | Document json

type_synonym disk = "string \<rightharpoonup> disk_file"

record data_loader =
  ident :: nat
  data_path :: string

definition path_join :: "string \<Rightarrow> string \<Rightarrow> string" where
  \<comment> \<open>\<open>os.path.join(a, b)\<close> of \<open>posixpath\<close>\<close>
  "path_join a b =
     (if take 1 b = ''/'' then b
      else if a = [] \<or> last a = CHR ''/'' then a @ b
      else a @ ''/'' @ b)"

fun first_key :: "string list \<Rightarrow> (string \<times> json) list \<Rightarrow> json option" where
  \<comment> \<open>\<open>for key in keys: if key in data: return data[key]\<close>\<close>
  "first_key [] kvs = None"
| "first_key (key # keys) kvs =
     (case map_of kvs key of Some v \<Rightarrow> Some v | None \<Rightarrow> first_key keys kvs)"

text \<open>
  The body of \<open>load_json\<close>, under the decorator. Beside what it returns or raises, the
  model says whether the call opened the file.
\<close>

definition load_json_body :: "disk \<Rightarrow> data_loader \<Rightarrow> string \<Rightarrow> (py_error + json) \<times> bool" where
  "load_json_body fs self filename =
     (let filepath = path_join (data_path self) filename in
      case fs filepath of
        None \<Rightarrow> (Inl (FileNotFoundError, ''Data file not found: '' @ filepath), False)
      | Some (Malformed msg) \<Rightarrow>
          (Inl (ValueError, ''Invalid JSON in '' @ filepath @ '': '' @ msg), True)
      | Some (Document data) \<Rightarrow>
          (Inr (case data of
                  JList xs \<Rightarrow> JList xs
                | JDict kvs \<Rightarrow>
                    (case first_key [''flights'', ''hotels'', ''places'', ''data''] kvs of
                       Some v \<Rightarrow> v
                     | None \<Rightarrow> JList [JDict kvs])
                | _ \<Rightarrow> JList []),
           True))"

text \<open>
  \<open>@lru_cache(maxsize=10)\<close> on the method: one cache for the class, keyed by the pair of
  the instance and the filename, most recently used entry first. A hit moves its entry to
  the front; a miss runs the body and stores what it returns, dropping the least recently
  used entry when the cache is full; a call that raises stores nothing.
\<close>

type_synonym cache_key = "nat \<times> string"

type_synonym lru = "(cache_key \<times> json) list"

definition maxsize :: nat where
  "maxsize = 10"

definition load_json :: "disk \<Rightarrow> lru \<Rightarrow> data_loader \<Rightarrow> string \<Rightarrow> (py_error + json) \<times> bool \<times> lru" where
  "load_json fs cache self filename =
     (let key = (ident self, filename) in
      case map_of cache key of
        Some v \<Rightarrow> (Inr v, False, (key, v) # filter (\<lambda>kv. fst kv \<noteq> key) cache)
      | None \<Rightarrow>
          (case load_json_body fs self filename of
             (Inl e, opened) \<Rightarrow> (Inl e, opened, cache)
           | (Inr v, opened) \<Rightarrow>
               (Inr v, opened,
                (key, v) # (if length cache \<ge> maxsize then butlast cache else cache))))"

definition clear_cache :: "lru \<Rightarrow> lru" where
  "clear_cache cache = []"

text \<open>
  A sequence of \<open>load_json\<close> calls on one instance against an unchanged disk: for each
  call its filename, its outcome and whether it opened the file; and the cache at the end.
\<close>

fun load_all ::
  "disk \<Rightarrow> data_loader \<Rightarrow> string list \<Rightarrow> lru \<Rightarrow> (string \<times> (py_error + json) \<times> bool) list \<times> lru" where
  "load_all fs self [] cache = ([], cache)"
| "load_all fs self (filename # rest) cache =
     (case load_json fs cache self filename of
        (r, opened, cache') \<Rightarrow>
          (case load_all fs self rest cache' of
             (trace, cache'') \<Rightarrow> ((filename, r, opened) # trace, cache'')))"

definition opens_of :: "string \<Rightarrow> (string \<times> (py_error + json) \<times> bool) list \<Rightarrow> nat" where
  \<comment> \<open>how many calls for the filename opened the file\<close>
  "opens_of filename trace = length (filter (\<lambda>c. fst c = filename \<and> snd (snd c)) trace)"

definition cache_within :: "nat \<Rightarrow> string set \<Rightarrow> lru \<Rightarrow> bool" where
  \<comment> \<open>the cache holds one entry a key, all for the instance and for filenames of the set\<close>
  "cache_within i N cache = (distinct (map fst cache) \<and> fst ` set cache \<subseteq> {i} \<times> N)"


section \<open>Flight search (\<open>src/tools/flight_search_tool.py\<close>)\<close>

text \<open>
  \<open>flights_data\<close> is whatever the JSON file held: a list of values, each expected to be a
  dict. The comprehension of \<open>_filter_flights\<close> stops at the first element that raises;
  \<open>and\<close> does not look at the destination of a flight whose source differs.
\<close>

definition flight_matches :: "json \<Rightarrow> string \<Rightarrow> string \<Rightarrow> py_error + bool" where
  "flight_matches flight source_lower dest_lower =
     (case dict_get flight ''source'' (JStr []) of
        Inl e \<Rightarrow> Inl e
      | Inr s \<Rightarrow>
          (case json_lower s of
             Inl e \<Rightarrow> Inl e
           | Inr sl \<Rightarrow>
               if sl = source_lower
               then (case dict_get flight ''destination'' (JStr []) of
                       Inl e \<Rightarrow> Inl e
                     | Inr d \<Rightarrow>
                         (case json_lower d of
                            Inl e \<Rightarrow> Inl e
                          | Inr dl \<Rightarrow> Inr (dl = dest_lower)))
               else Inr False))"

fun select_flights :: "json list \<Rightarrow> string \<Rightarrow> string \<Rightarrow> py_error + json list" where
  "select_flights [] source_lower dest_lower = Inr []"
| "select_flights (flight # rest) source_lower dest_lower =
     (case flight_matches flight source_lower dest_lower of
        Inl e \<Rightarrow> Inl e
      | Inr keep \<Rightarrow>
          (case select_flights rest source_lower dest_lower of
             Inl e \<Rightarrow> Inl e
           | Inr filtered \<Rightarrow> Inr (if keep then flight # filtered else filtered)))"

definition filter_flights :: "json list \<Rightarrow> string \<Rightarrow> string \<Rightarrow> py_error + json list" where
  "filter_flights flights_data source destination =
     (let source_lower = str_strip (str_lower source);
          dest_lower = str_strip (str_lower destination)
      in select_flights flights_data source_lower dest_lower)"

text \<open>
  \<open>sorted(flights, key=...)\<close> computes the key of every element, then orders by \<open><\<close> on
  the keys, keeping elements with equal keys in their order (the sort is stable, so its
  result is the one \<open>sort_key\<close> gives). Numbers (int, float, bool) compare by value. The
  theory models the ordering of numbers only: on two or more elements whose keys are not
  all numbers the result is \<open>None\<close>, which stands for behaviour outside the model (Python
  orders text with text, and raises \<open>TypeError\<close> on most other pairs).
\<close>

definition float_val :: "int \<Rightarrow> int \<Rightarrow> rat" where
  "float_val m e = (if 0 \<le> e then of_int m * 2 ^ nat e else of_int m / 2 ^ nat (- e))"

fun is_number :: "json \<Rightarrow> bool" where
  "is_number (JInt i) = True"
| "is_number (JFloat m e) = True"
| "is_number (JBool b) = True"
| "is_number _ = False"

fun num_val :: "json \<Rightarrow> rat" where
  "num_val (JInt i) = of_int i"
| "num_val (JFloat m e) = float_val m e"
| "num_val (JBool b) = (if b then 1 else 0)"
| "num_val _ = 0"

fun collect :: "(py_error + 'a) list \<Rightarrow> py_error + 'a list" where
  \<comment> \<open>the results in order, or the first exception\<close>
  "collect [] = Inr []"
| "collect (Inl e # rs) = Inl e"
| "collect (Inr v # rs) = (case collect rs of Inl e \<Rightarrow> Inl e | Inr vs \<Rightarrow> Inr (v # vs))"

definition py_sorted :: "(json \<Rightarrow> py_error + json) \<Rightarrow> json list \<Rightarrow> (py_error + json list) option" where
  "py_sorted key xs =
     (case collect (map key xs) of
        Inl e \<Rightarrow> Some (Inl e)
      | Inr ks \<Rightarrow>
          if length xs < 2 then Some (Inr xs)
          else if list_all is_number ks
          then Some (Inr (map snd (sort_key (\<lambda>kx. num_val (fst kx)) (zip ks xs))))
          else None)"

definition sort_flights :: "json list \<Rightarrow> string \<Rightarrow> (py_error + json list) option" where
  "sort_flights flights sort_by =
     (if sort_by = ''duration''
      then py_sorted (\<lambda>x. dict_get x ''duration_minutes'' (JInt 999)) flights
      else py_sorted (\<lambda>x. dict_get x ''price'' (JInt 999999)) flights)"

text \<open>
  For stating properties of flight records: the value of a field of a dict, with the
  default of the source where the key is absent.
\<close>

fun field_or :: "string \<Rightarrow> json \<Rightarrow> json \<Rightarrow> json" where
  "field_or k d (JDict kvs) = (case map_of kvs k of None \<Rightarrow> d | Some v \<Rightarrow> v)"
| "field_or k d _ = d"

fun is_dict :: "json \<Rightarrow> bool" where
  "is_dict (JDict kvs) = True"
| "is_dict _ = False"

fun is_str :: "json \<Rightarrow> bool" where
  "is_str (JStr s) = True"
| "is_str _ = False"

fun str_val :: "json \<Rightarrow> string" where
  "str_val (JStr s) = s"
| "str_val _ = []"

definition price_of :: "json \<Rightarrow> rat" where
  "price_of flight = num_val (field_or ''price'' (JInt 999999) flight)"

definition duration_of :: "json \<Rightarrow> rat" where
  "duration_of flight = num_val (field_or ''duration_minutes'' (JInt 999) flight)"


section \<open>Weather forecast (\<open>src/tools/weather_tool.py\<close>)\<close>

text \<open>
  The \<open>daily\<close> object of the forecast service's answer, with the types the service gives
  its arrays; an array the answer lacks is empty, as \<open>daily.get(key, [])\<close> makes it.
  A temperature, a precipitation or a probability is the rational number a Python float
  or int stands for; comparing two numbers is exact in Python, and so it is here.

  What the formatter takes from Python's library are parameters: the text of a number in
  an f-string; \<open>datetime.fromisoformat(s).strftime("%A, %b %d")\<close>, which gives a label or
  raises \<open>ValueError\<close> with some message (\<open>Inl\<close>); and the floating-point arithmetic of
  the average, \<open>sum(xs)\<close> and the division \<open>s / n\<close> by a non-zero int, whose results are
  rounded to double precision and need not be the exact sum and quotient.
\<close>

record daily_data =
  time :: "string list"
  temperature_2m_max :: "rat list"
  temperature_2m_min :: "rat list"
  weathercode :: "int list"
  precipitation_sum :: "rat list"
  precipitation_probability_max :: "rat list"

record pylib =
  fmt_number :: "rat \<Rightarrow> string"
  day_name :: "string \<Rightarrow> string + string"
  float_sum :: "rat list \<Rightarrow> rat"
  float_div :: "rat \<Rightarrow> int \<Rightarrow> rat"

definition WEATHER_CODES :: "(int \<times> string) list" where
  "WEATHER_CODES =
   [(0, ''Clear Sky '' @ [CHR 0xE2, CHR 0x98, CHR 0x80, CHR 0xEF, CHR 0xB8, CHR 0x8F]),
    (1, ''Mainly Clear '' @ [CHR 0xF0, CHR 0x9F, CHR 0x8C, CHR 0xA4, CHR 0xEF, CHR 0xB8, CHR 0x8F]),
    (2, ''Partly Cloudy '' @ [CHR 0xE2, CHR 0x9B, CHR 0x85]),
    (3, ''Overcast '' @ [CHR 0xE2, CHR 0x98, CHR 0x81, CHR 0xEF, CHR 0xB8, CHR 0x8F]),
    (45, ''Foggy '' @ [CHR 0xF0, CHR 0x9F, CHR 0x8C, CHR 0xAB, CHR 0xEF, CHR 0xB8, CHR 0x8F]),
    (48, ''Foggy '' @ [CHR 0xF0, CHR 0x9F, CHR 0x8C, CHR 0xAB, CHR 0xEF, CHR 0xB8, CHR 0x8F]),
    (51, ''Light Drizzle '' @ [CHR 0xF0, CHR 0x9F, CHR 0x8C, CHR 0xA6, CHR 0xEF, CHR 0xB8, CHR 0x8F]),
    (53, ''Moderate Drizzle '' @ [CHR 0xF0, CHR 0x9F, CHR 0x8C, CHR 0xA6, CHR 0xEF, CHR 0xB8, CHR 0x8F]),
    (55, ''Dense Drizzle '' @ [CHR 0xF0, CHR 0x9F, CHR 0x8C, CHR 0xA7, CHR 0xEF, CHR 0xB8, CHR 0x8F]),
    (61, ''Slight Rain '' @ [CHR 0xF0, CHR 0x9F, CHR 0x8C, CHR 0xA7, CHR 0xEF, CHR 0xB8, CHR 0x8F]),
    (63, ''Moderate Rain '' @ [CHR 0xF0, CHR 0x9F, CHR 0x8C, CHR 0xA7, CHR 0xEF, CHR 0xB8, CHR 0x8F]),
    (65, ''Heavy Rain '' @ [CHR 0xE2, CHR 0x9B, CHR 0x88, CHR 0xEF, CHR 0xB8, CHR 0x8F]),
    (71, ''Slight Snow '' @ [CHR 0xE2, CHR 0x9D, CHR 0x84, CHR 0xEF, CHR 0xB8, CHR 0x8F]),
    (73, ''Moderate Snow '' @ [CHR 0xE2, CHR 0x9D, CHR 0x84, CHR 0xEF, CHR 0xB8, CHR 0x8F]),
    (75, ''Heavy Snow '' @ [CHR 0xE2, CHR 0x9D, CHR 0x84, CHR 0xEF, CHR 0xB8, CHR 0x8F]),
    (80, ''Rain Showers '' @ [CHR 0xF0, CHR 0x9F, CHR 0x8C, CHR 0xA6, CHR 0xEF, CHR 0xB8, CHR 0x8F]),
    (81, ''Rain Showers '' @ [CHR 0xF0, CHR 0x9F, CHR 0x8C, CHR 0xA7, CHR 0xEF, CHR 0xB8, CHR 0x8F]),
    (82, ''Heavy Showers '' @ [CHR 0xE2, CHR 0x9B, CHR 0x88, CHR 0xEF, CHR 0xB8, CHR 0x8F]),
    (95, ''Thunderstorm '' @ [CHR 0xE2, CHR 0x9B, CHR 0x88, CHR 0xEF, CHR 0xB8, CHR 0x8F]),
    (96, ''Thunderstorm with Hail '' @ [CHR 0xE2, CHR 0x9B, CHR 0x88, CHR 0xEF, CHR 0xB8, CHR 0x8F]),
    (99, ''Heavy Thunderstorm '' @ [CHR 0xE2, CHR 0x9B, CHR 0x88, CHR 0xEF, CHR 0xB8, CHR 0x8F])]"

definition interpret_weather_code :: "int \<Rightarrow> string" where
  "interpret_weather_code code =
     (case map_of WEATHER_CODES code of Some t \<Rightarrow> t | None \<Rightarrow> ''Unknown'')"

definition py_index :: "'a list \<Rightarrow> nat \<Rightarrow> py_error + 'a" where
  \<comment> \<open>\<open>xs[i]\<close> for \<open>i \<ge> 0\<close>\<close>
  "py_index xs i = (if i < length xs then Inr (xs ! i)
                    else Inl (IndexError, ''list index out of range''))"

definition py_take :: "int \<Rightarrow> 'a list \<Rightarrow> 'a list" where
  \<comment> \<open>the slice \<open>xs[:n]\<close>; a negative \<open>n\<close> counts from the end\<close>
  "py_take n xs = (if 0 \<le> n then take (nat n) xs else take (length xs - nat (- n)) xs)"

definition bullet :: string where
  \<comment> \<open>U+2022 in UTF-8\<close>
  "bullet = [CHR 0xE2, CHR 0x80, CHR 0xA2]"

definition degree :: string where
  \<comment> \<open>U+00B0 in UTF-8\<close>
  "degree = [CHR 0xC2, CHR 0xB0]"

definition day_entry :: "pylib \<Rightarrow> daily_data \<Rightarrow> nat \<Rightarrow> py_error + string" where
  \<comment> \<open>what one round of the loop appends; \<open>i < length (time d)\<close> by the bound of the loop\<close>
  "day_entry L d i =
     (case day_name L (time d ! i) of
        Inl msg \<Rightarrow> Inl (ValueError, msg)
      | Inr label \<Rightarrow>
          (case py_index (weathercode d) i of
             Inl e \<Rightarrow> Inl e
           | Inr code \<Rightarrow>
               (case py_index (temperature_2m_max d) i of
                  Inl e \<Rightarrow> Inl e
                | Inr temp_high \<Rightarrow>
                    (case py_index (temperature_2m_min d) i of
                       Inl e \<Rightarrow> Inl e
                     | Inr temp_low \<Rightarrow>
                         (let condition = interpret_weather_code code;
                              rain = (if i < length (precipitation_sum d)
                                      then precipitation_sum d ! i else 0);
                              rain_prob = (if i < length (precipitation_probability_max d)
                                           then precipitation_probability_max d ! i else 0)
                          in Inr (''Day '' @ str_int (int i + 1) @ '' ('' @ label @ ''):'' @ nl
                                  @ ''  Condition: '' @ condition @ nl
                                  @ ''  Temperature: '' @ fmt_number L temp_high @ degree
                                  @ ''C (High) / '' @ fmt_number L temp_low @ degree
                                  @ ''C (Low)'' @ nl
                                  @ (if rain > 0 \<or> rain_prob > 20
                                     then ''  Precipitation: '' @ fmt_number L rain @ ''mm (''
                                          @ fmt_number L rain_prob @ ''% chance)'' @ nl
                                     else [])
                                  @ nl))))))"

definition forecast_entries :: "pylib \<Rightarrow> daily_data \<Rightarrow> int \<Rightarrow> py_error + string list" where
  \<comment> \<open>the loop \<open>for i in range(min(days, len(dates)))\<close>: its entries, or the first exception\<close>
  "forecast_entries L d days =
     collect (map (day_entry L d) [0 ..< nat (min days (int (length (time d))))])"

definition hot_tip :: string where
  "hot_tip = ''  '' @ bullet @ '' Pack light, breathable clothing and sunscreen'' @ nl"

definition cold_tip :: string where
  "cold_tip = ''  '' @ bullet @ '' Bring warm layers and a jacket'' @ nl"

definition moderate_tip :: string where
  "moderate_tip = ''  '' @ bullet @ '' Pleasant weather, comfortable clothing recommended'' @ nl"

definition umbrella_tip :: string where
  "umbrella_tip = ''  '' @ bullet @ '' Carry an umbrella or raincoat'' @ nl"

definition no_rain_tip :: string where
  "no_rain_tip = ''  '' @ bullet @ '' No rain expected, perfect for outdoor activities'' @ nl"

definition clothing_tip :: "rat \<Rightarrow> string" where
  "clothing_tip avg_temp =
     (if avg_temp > 30 then hot_tip
      else if avg_temp < 20 then cold_tip
      else moderate_tip)"

definition rain_tip :: "bool \<Rightarrow> string" where
  "rain_tip has_rain = (if has_rain then umbrella_tip else no_rain_tip)"

definition tips_heading :: string where
  "tips_heading = [CHR 0xF0, CHR 0x9F, CHR 0x92, CHR 0xA1] @ '' Travel Tips:'' @ nl"

definition forecast_heading :: "string \<Rightarrow> string" where
  "forecast_heading city_name =
     [CHR 0xF0, CHR 0x9F, CHR 0x8C, CHR 0xA4, CHR 0xEF, CHR 0xB8, CHR 0x8F]
     @ '' Weather Forecast for '' @ city_name @ '':'' @ nl @ nl"

definition format_weather_body :: "pylib \<Rightarrow> string \<Rightarrow> daily_data \<Rightarrow> int \<Rightarrow> py_error + string" where
  \<comment> \<open>the \<open>try\<close> block of \<open>_format_weather_output\<close>\<close>
  "format_weather_body L city_name d days =
     (case forecast_entries L d days of
        Inl e \<Rightarrow> Inl e
      | Inr entries \<Rightarrow>
          if days = 0 then Inl (ZeroDivisionError, ''division by zero'')
          else
            (let output = forecast_heading city_name @ concat entries;
                 avg_temp = float_div L (float_sum L (py_take days (temperature_2m_max d))) days;
                 has_rain = list_ex (\<lambda>p. p > 5) (py_take days (precipitation_sum d))
             in Inr (output @ tips_heading @ clothing_tip avg_temp @ rain_tip has_rain)))"

definition format_weather_output :: "pylib \<Rightarrow> string \<Rightarrow> daily_data \<Rightarrow> int \<Rightarrow> string" where
  "format_weather_output L city_name d days =
     (case format_weather_body L city_name d days of
        Inr output \<Rightarrow> output
      | Inl e \<Rightarrow> ''Error formatting weather data: '' @ snd e)"

text \<open>
  The request \<open>_fetch_weather_data\<close> sends. The service is a function from the request to
  the \<open>daily\<close> data of its answer, or \<open>None\<close> when \<open>requests\<close> raises.
\<close>

record fetch_params =
  latitude :: rat
  longitude :: rat
  daily :: "string list"
  timezone :: string
  forecast_days :: int

definition fetch_request :: "rat \<Rightarrow> rat \<Rightarrow> int \<Rightarrow> fetch_params" where
  "fetch_request lat lon days =
     \<lparr>latitude = lat, longitude = lon,
      daily = [''temperature_2m_max'', ''temperature_2m_min'', ''weathercode'',
               ''precipitation_sum'', ''precipitation_probability_max''],
      timezone = ''auto'',
      forecast_days = min days 7\<rparr>"

definition fetch_weather_data ::
  "(fetch_params \<Rightarrow> daily_data option) \<Rightarrow> rat \<Rightarrow> rat \<Rightarrow> int \<Rightarrow> daily_data option" where
  "fetch_weather_data api lat lon days = api (fetch_request lat lon days)"

definition CITY_COORDINATES :: "(string \<times> rat \<times> rat \<times> string) list" where
  "CITY_COORDINATES =
   [(''goa'', (152993 / 10000, 741240 / 10000, ''Goa'')),
    (''bangalore'', (129716 / 10000, 775946 / 10000, ''Bangalore'')),
    (''bengaluru'', (129716 / 10000, 775946 / 10000, ''Bangalore'')),
    (''delhi'', (287041 / 10000, 771025 / 10000, ''Delhi'')),
    (''mumbai'', (190760 / 10000, 728777 / 10000, ''Mumbai'')),
    (''chennai'', (130827 / 10000, 802707 / 10000, ''Chennai'')),
    (''kolkata'', (225726 / 10000, 883639 / 10000, ''Kolkata'')),
    (''hyderabad'', (173850 / 10000, 784867 / 10000, ''Hyderabad'')),
    (''pune'', (185204 / 10000, 738567 / 10000, ''Pune'')),
    (''jaipur'', (269124 / 10000, 757873 / 10000, ''Jaipur'')),
    (''ahmedabad'', (230225 / 10000, 725714 / 10000, ''Ahmedabad'')),
    (''lucknow'', (268467 / 10000, 809462 / 10000, ''Lucknow'')),
    (''udaipur'', (245854 / 10000, 737125 / 10000, ''Udaipur'')),
    (''agra'', (271767 / 10000, 780081 / 10000, ''Agra'')),
    (''varanasi'', (253176 / 10000, 829739 / 10000, ''Varanasi''))]"

definition get_coordinates :: "string \<Rightarrow> (rat \<times> rat \<times> string) option" where
  "get_coordinates city = map_of CITY_COORDINATES (str_strip (str_lower city))"

text \<open>\<open>", ".join(sorted(set(names)))\<close>: text is ordered by its characters' codes.\<close>

fun str_le :: "string \<Rightarrow> string \<Rightarrow> bool" where
  "str_le [] ys = True"
| "str_le (x # xs) [] = False"
| "str_le (x # xs) (y # ys) =
     ((of_char x :: nat) < of_char y \<or> (x = y \<and> str_le xs ys))"

fun insert_sorted :: "string \<Rightarrow> string list \<Rightarrow> string list" where
  "insert_sorted x [] = [x]"
| "insert_sorted x (y # ys) = (if str_le x y then x # y # ys else y # insert_sorted x ys)"

fun join_comma :: "string list \<Rightarrow> string" where
  "join_comma [] = []"
| "join_comma [x] = x"
| "join_comma (x # y # ys) = x @ '', '' @ join_comma (y # ys)"

definition available_cities :: string where
  "available_cities =
     join_comma (foldr insert_sorted (remdups (map (\<lambda>c. snd (snd (snd c))) CITY_COORDINATES)) [])"

definition weather_run ::
  "pylib \<Rightarrow> (fetch_params \<Rightarrow> daily_data option) \<Rightarrow> string \<Rightarrow> int \<Rightarrow> string" where
  \<comment> \<open>\<open>WeatherTool._run\<close>\<close>
  "weather_run L api city days =
     (case get_coordinates city of
        None \<Rightarrow> ''City '' @ [CHR 0x27] @ city @ [CHR 0x27] @ '' not found in database. ''
                @ ''Available cities: '' @ available_cities
      | Some (lat, lon, name) \<Rightarrow>
          (case fetch_weather_data api lat lon days of
             None \<Rightarrow> ''Failed to fetch weather data for '' @ name @ ''. Please try again.''
           | Some weather_data \<Rightarrow> format_weather_output L name weather_data days))"

section \<open>Sample collaborators\<close>

text \<open>
  Concrete stand-ins for what lies outside the repository, for running the model on
  examples: an engine that answers every query with the same plan, a library that writes
  a number as its integer part, takes a date as its own label and computes sums and
  quotients exactly (as double precision does on the whole numbers of the examples, where
  30 + 30 + 30 is 90 and 90 / 3 is 30), and a forecast service that answers with as many
  days of one steady week as the request asks for.
\<close>

definition canned_engine :: "string \<Rightarrow> invoke_outcome" where
  "canned_engine query = Returned [(''output'', ''plan'')]"

definition failing_engine :: "string \<Rightarrow> invoke_outcome" where
  "failing_engine query = Raised ''quota exceeded''"

definition empty_arrays :: disk where
  \<comment> \<open>a disk where every path holds the document \<open>[]\<close>\<close>
  "empty_arrays path = Some (Document (JList []))"

definition eleven_files :: "string list" where
  "eleven_files = [''f0.json'', ''f1.json'', ''f2.json'', ''f3.json'', ''f4.json'', ''f5.json'',
                   ''f6.json'', ''f7.json'', ''f8.json'', ''f9.json'', ''f10.json'']"

definition ten_cached :: lru where
  \<comment> \<open>the cache of instance 0 after it loaded f0.json to f9.json in this order\<close>
  "ten_cached = [((0, ''f9.json''), JList []), ((0, ''f8.json''), JList []),
                 ((0, ''f7.json''), JList []), ((0, ''f6.json''), JList []),
                 ((0, ''f5.json''), JList []), ((0, ''f4.json''), JList []),
                 ((0, ''f3.json''), JList []), ((0, ''f2.json''), JList []),
                 ((0, ''f1.json''), JList []), ((0, ''f0.json''), JList [])]"

definition floor_text :: "rat \<Rightarrow> string" where
  "floor_text r = str_int \<lfloor>r\<rfloor>"

definition exact_div :: "rat \<Rightarrow> int \<Rightarrow> rat" where
  "exact_div s n = s / of_int n"

definition sample_lib :: pylib where
  "sample_lib = \<lparr>fmt_number = floor_text, day_name = Inr,
                 float_sum = sum_list, float_div = exact_div\<rparr>"

definition steady_week :: daily_data where
  "steady_week =
     \<lparr>time = [''2024-03-01'', ''2024-03-02'', ''2024-03-03'', ''2024-03-04'',
              ''2024-03-05'', ''2024-03-06'', ''2024-03-07''],
      temperature_2m_max = [30, 30, 30, 30, 30, 30, 30],
      temperature_2m_min = [24, 24, 24, 24, 24, 24, 24],
      weathercode = [0, 0, 0, 0, 0, 0, 0],
      precipitation_sum = [0, 0, 0, 0, 0, 0, 0],
      precipitation_probability_max = [0, 0, 0, 0, 0, 0, 0]\<rparr>"

definition first_days :: "int \<Rightarrow> daily_data \<Rightarrow> daily_data" where
  "first_days n d =
     \<lparr>time = take (nat n) (time d),
      temperature_2m_max = take (nat n) (temperature_2m_max d),
      temperature_2m_min = take (nat n) (temperature_2m_min d),
      weathercode = take (nat n) (weathercode d),
      precipitation_sum = take (nat n) (precipitation_sum d),
      precipitation_probability_max = take (nat n) (precipitation_probability_max d)\<rparr>"

definition sample_api :: "fetch_params \<Rightarrow> daily_data option" where
  "sample_api req = (if forecast_days req < 1 then None
                     else Some (first_days (forecast_days req) steady_week))"


section \<open>Evaluation rules\<close>

lemmas date_eval = strptime_def regex_match_def match_m_def match_d_def isdigit_def
  digit_val_def in_range_def days_in_month_def is_leap_def DAYS_IN_MONTH_def toordinal_def
  days_before_year_def days_before_month_def DAYS_BEFORE_MONTH_def py_repr_def

lemmas text_eval = fmt_commas_def digits.simps group3.simps str_int_def nl_def rupee_def
  str_upper_def upper_char_def str_lower_def lower_char_def ascii_lower_def ascii_upper_def

lemmas demo_eval = plan_trip_def demo_plan_trip_def Let_def itinerary_head_def
  itinerary_budget_def budget_line_def day_line_def activities_def upt_rec

lemma rule_60:
  "replicate 60 CHR ''='' = ''============================================================''"
  by code_simp

lemma strptime_march_1:
  "strptime ''2024-03-01'' = Inr \<lparr>year = 2024, month = 3, day = 1\<rparr>"
  by (simp add: date_eval)

lemma strptime_march_4:
  "strptime ''2024-03-04'' = Inr \<lparr>year = 2024, month = 3, day = 4\<rparr>"
  by (simp add: date_eval)

lemma march_1_before_4:
  "toordinal \<lparr>year = 2024, month = 3, day = 1\<rparr> + 3 = toordinal \<lparr>year = 2024, month = 3, day = 4\<rparr>"
  by (simp add: date_eval)


section \<open>The demo plan and its budget\<close>

text \<open>
  C1 (amended). For every trip request whose dates parse and whose end date is strictly
  after its start date, \<open>plan_trip\<close> in demo mode returns status success with a non-empty
  itinerary, and the total the itinerary states is 4800 + 3200 * days + 800 * days, where
  days is the inclusive day count (end - start) + 1, which is at least 2.
\<close>

theorem demo_plan_trip_budget:
  assumes "provider self = ''demo''"
    and "strptime start_date = Inr start_dt"
    and "strptime end_date = Inr end_dt"
    and "toordinal start_dt < toordinal end_dt"
  shows "\<exists>itinerary.
           plan_trip self source destination start_date end_date budget preferences
             = Inr [(''status'', ''success''), (''provider'', ''demo''), (''itinerary'', itinerary)]
         \<and> itinerary \<noteq> []
         \<and> 2 \<le> toordinal end_dt - toordinal start_dt + 1
         \<and> sublist (budget_line (4800 + 3200 * (toordinal end_dt - toordinal start_dt + 1)
                                        + 800 * (toordinal end_dt - toordinal start_dt + 1)))
                    itinerary"
proof -
  let ?days = "toordinal end_dt - toordinal start_dt + 1"
  let ?tot = "4800 + 3200 * ?days + 800 * ?days"
  let ?pre = "itinerary_head source destination ?days @ concat (map day_line [0 ..< nat ?days])
              @ [CHR 0x0A, CHR 0x0A, CHR 0xF0, CHR 0x9F, CHR 0x92, CHR 0xB0] @ '' ''"
  let ?suf = "''    Flight: '' @ rupee @ ''4,800'' @ nl
     @ ''    Hotel: '' @ rupee @ fmt_commas (3200 * ?days) @ nl
     @ ''    Food/Activities: '' @ rupee @ fmt_commas (800 * ?days) @ nl
     @ nl @ replicate 60 CHR ''='' @ nl"
  let ?it = "?pre @ budget_line ?tot @ ?suf"
  have run: "plan_trip self source destination start_date end_date budget preferences
             = Inr [(''status'', ''success''), (''provider'', ''demo''), (''itinerary'', ?it)]"
    using assms(1-3)
    by (simp add: plan_trip_def demo_plan_trip_def Let_def itinerary_budget_def algebra_simps)
  have ne: "?it \<noteq> []"
    by (simp add: budget_line_def)
  have sub: "sublist (budget_line ?tot) ?it"
    by (rule sublist_appendI)
  from run ne sub assms(4) show ?thesis
    by (intro exI [of _ ?it]) simp
qed

theorem demo_plan_trip_budget_witness:
  "strptime ''2024-03-01'' = Inr \<lparr>year = 2024, month = 3, day = 1\<rparr>
   \<and> strptime ''2024-03-04'' = Inr \<lparr>year = 2024, month = 3, day = 4\<rparr>
   \<and> toordinal \<lparr>year = 2024, month = 3, day = 1\<rparr> < toordinal \<lparr>year = 2024, month = 3, day = 4\<rparr>
   \<and> (\<exists>itinerary.
         plan_trip \<lparr>provider = ''demo'', agent = None\<rparr> ''Delhi'' ''Goa'' ''2024-03-01'' ''2024-03-04''
           (Some 20000) None
           = Inr [(''status'', ''success''), (''provider'', ''demo''), (''itinerary'', itinerary)]
         \<and> itinerary \<noteq> []
         \<and> sublist (budget_line 20800) itinerary)"
proof -
  let ?a = "\<lparr>year = 2024, month = 3, day = 1\<rparr>"
  let ?b = "\<lparr>year = 2024, month = 3, day = 4\<rparr>"
  have h1: "provider \<lparr>provider = ''demo'', agent = None\<rparr> = ''demo''" by simp
  have h4: "toordinal ?a < toordinal ?b"
    using march_1_before_4 by simp
  have d: "4800 + 3200 * (toordinal ?b - toordinal ?a + 1)
                + 800 * (toordinal ?b - toordinal ?a + 1) = 20800"
    using march_1_before_4 by simp
  from demo_plan_trip_budget [OF h1 strptime_march_1 strptime_march_4 h4,
                              of "''Delhi''" "''Goa''" "Some 20000" None]
  show ?thesis unfolding d using strptime_march_1 strptime_march_4 h4 by blast
qed

text \<open>
  C1 as stated fails: from 2024-03-01 to 2024-03-04 the trip has 3 nights, the claimed
  total is 4800 + 3200 * 3 + 800 * 3 = 16800, and the itinerary states 20800.
\<close>

theorem demo_plan_trip_nights_counterexample:
  "strptime ''2024-03-01'' = Inr \<lparr>year = 2024, month = 3, day = 1\<rparr>
   \<and> strptime ''2024-03-04'' = Inr \<lparr>year = 2024, month = 3, day = 4\<rparr>
   \<and> max 1 (toordinal \<lparr>year = 2024, month = 3, day = 4\<rparr>
            - toordinal \<lparr>year = 2024, month = 3, day = 1\<rparr>) = 3
   \<and> sublist (budget_line 20800)
        (itinerary_of (plan_trip \<lparr>provider = ''demo'', agent = None\<rparr> ''Delhi'' ''Goa''
                         ''2024-03-01'' ''2024-03-04'' (Some 20000) None))
   \<and> \<not> sublist (budget_line (4800 + 3200 * 3 + 800 * 3))
        (itinerary_of (plan_trip \<lparr>provider = ''demo'', agent = None\<rparr> ''Delhi'' ''Goa''
                         ''2024-03-01'' ''2024-03-04'' (Some 20000) None))"
proof -
  have n: "max 1 (toordinal \<lparr>year = 2024, month = 3, day = 4\<rparr>
            - toordinal \<lparr>year = 2024, month = 3, day = 1\<rparr>) = 3"
    using march_1_before_4 by simp
  have a: "sublist (budget_line 20800)
        (itinerary_of (plan_trip \<lparr>provider = ''demo'', agent = None\<rparr> ''Delhi'' ''Goa''
                         ''2024-03-01'' ''2024-03-04'' (Some 20000) None))"
    by (simp add: itinerary_of_def demo_eval strptime_march_1 strptime_march_4 date_eval
                  text_eval rule_60 sublist_Cons_right)
  have b: "\<not> sublist (budget_line (4800 + 3200 * 3 + 800 * 3))
        (itinerary_of (plan_trip \<lparr>provider = ''demo'', agent = None\<rparr> ''Delhi'' ''Goa''
                         ''2024-03-01'' ''2024-03-04'' (Some 20000) None))"
    by (simp add: itinerary_of_def demo_eval strptime_march_1 strptime_march_4 date_eval
                  text_eval rule_60 sublist_Cons_right)
  from strptime_march_1 strptime_march_4 n a b show ?thesis by blast
qed


section \<open>Demo mode reads neither the budget nor the preferences\<close>

text \<open>
  C10. In demo mode the result of \<open>plan_trip\<close>, a returned dict or a raised exception,
  is the same for any two calls that agree on source, destination, start date and end
  date, whatever their budgets and preferences.
\<close>

theorem demo_ignores_budget_and_preferences:
  assumes "provider self = ''demo''"
  shows "plan_trip self source destination start_date end_date budget preferences
       = plan_trip self source destination start_date end_date budget' preferences'"
  using assms by (simp add: plan_trip_def demo_plan_trip_def)

theorem demo_ignores_budget_and_preferences_witness:
  "provider \<lparr>provider = ''demo'', agent = None\<rparr> = ''demo''
   \<and> plan_trip \<lparr>provider = ''demo'', agent = None\<rparr> ''Delhi'' ''Goa'' ''2024-03-01'' ''2024-03-04''
        (Some 20000) None
     = plan_trip \<lparr>provider = ''demo'', agent = None\<rparr> ''Delhi'' ''Goa'' ''2024-03-01'' ''2024-03-04''
        (Some 5) (Some ''beach'')"
proof -
  have h: "provider \<lparr>provider = ''demo'', agent = None\<rparr> = ''demo''" by simp
  from demo_ignores_budget_and_preferences [OF h] h show ?thesis by blast
qed


section \<open>What \<open>plan_trip\<close> returns and what it lets through\<close>

lemma strptime_raises_ValueError: "strptime s = Inl e \<Longrightarrow> fst e = ValueError"
  by (auto simp: strptime_def split: option.splits if_splits)

lemma plan_trip_parsed:
  assumes "strptime start_date = Inr start_dt"
    and "strptime end_date = Inr end_dt"
  shows "\<exists>r. plan_trip self source destination start_date end_date budget preferences = Inr r
           \<and> ((map_of r ''status'' = Some ''success'' \<and> (\<exists>t. map_of r ''itinerary'' = Some t))
              \<or> (map_of r ''status'' = Some ''error'' \<and> (\<exists>m. map_of r ''message'' = Some m)))"
proof (cases "provider self = ''demo''")
  case True
  with assms show ?thesis
    by (simp add: plan_trip_def demo_plan_trip_def Let_def)
next
  case False
  have "\<exists>q. plan_trip self source destination start_date end_date budget preferences
          = Inr (case agent self of
                   None \<Rightarrow> error_result (provider self)
                             ([CHR 0x27] @ ''NoneType'' @ [CHR 0x27]
                              @ '' object has no attribute '' @ py_repr ''invoke'')
                 | Some invoke \<Rightarrow>
                     (case invoke q of
                        Raised msg \<Rightarrow> error_result (provider self) msg
                      | Returned result \<Rightarrow>
                          (case map_of result ''output'' of
                             None \<Rightarrow> error_result (provider self) (py_repr ''output'')
                           | Some out \<Rightarrow> [(''status'', ''success''),
                                          (''provider'', provider self),
                                          (''itinerary'', out)])))"
    using assms False unfolding plan_trip_def Let_def by (simp del: append_assoc) blast
  then obtain q where run: "plan_trip self source destination start_date end_date budget preferences
          = Inr (case agent self of
                   None \<Rightarrow> error_result (provider self)
                             ([CHR 0x27] @ ''NoneType'' @ [CHR 0x27]
                              @ '' object has no attribute '' @ py_repr ''invoke'')
                 | Some invoke \<Rightarrow>
                     (case invoke q of
                        Raised msg \<Rightarrow> error_result (provider self) msg
                      | Returned result \<Rightarrow>
                          (case map_of result ''output'' of
                             None \<Rightarrow> error_result (provider self) (py_repr ''output'')
                           | Some out \<Rightarrow> [(''status'', ''success''),
                                          (''provider'', provider self),
                                          (''itinerary'', out)])))"
    by blast
  show ?thesis
    unfolding run
    by (simp add: error_result_def split: option.splits invoke_outcome.splits)
qed

lemma plan_trip_bad_start:
  assumes "strptime start_date = Inl e"
  shows "plan_trip self source destination start_date end_date budget preferences = Inl e"
  using assms by (simp add: plan_trip_def demo_plan_trip_def)

lemma plan_trip_bad_end:
  assumes "strptime start_date = Inr start_dt"
    and "strptime end_date = Inl e"
  shows "plan_trip self source destination start_date end_date budget preferences = Inl e"
  using assms by (simp add: plan_trip_def demo_plan_trip_def)

text \<open>
  C3 (amended). For every input to \<open>plan_trip\<close>, in demo mode and with an engine
  alike: if the start and end date strings both parse as calendar dates, the call returns
  a dict, status success with an itinerary or status error with a message, and no
  exception propagates; if a date string of ASCII text does not parse, the start date or,
  after a start date that parses, the end date, the call raises the \<open>ValueError\<close> of
  \<open>strptime\<close> to its caller.
\<close>

theorem plan_trip_returns_on_parsed_dates:
  "(\<forall>start_dt end_dt.
       strptime start_date = Inr start_dt \<and> strptime end_date = Inr end_dt
       \<longrightarrow> (\<exists>r. plan_trip self source destination start_date end_date budget preferences = Inr r
              \<and> ((map_of r ''status'' = Some ''success''
                    \<and> (\<exists>t. map_of r ''itinerary'' = Some t))
                 \<or> (map_of r ''status'' = Some ''error''
                    \<and> (\<exists>m. map_of r ''message'' = Some m)))))
   \<and> (\<forall>e. is_ascii start_date \<and> strptime start_date = Inl e
       \<longrightarrow> fst e = ValueError
           \<and> plan_trip self source destination start_date end_date budget preferences = Inl e)
   \<and> (\<forall>start_dt e.
       is_ascii end_date \<and> strptime start_date = Inr start_dt \<and> strptime end_date = Inl e
       \<longrightarrow> fst e = ValueError
           \<and> plan_trip self source destination start_date end_date budget preferences = Inl e)"
  using plan_trip_parsed [of start_date _ end_date _ self source destination budget preferences]
        plan_trip_bad_start [of start_date _ self source destination end_date budget preferences]
        plan_trip_bad_end [of start_date _ end_date _ self source destination budget preferences]
        strptime_raises_ValueError
  by blast

lemma strptime_tomorrow:
  "strptime ''tomorrow'' = Inl (ValueError, ''time data '' @ [CHR 0x27] @ ''tomorrow'' @ [CHR 0x27]
                                  @ '' does not match format '' @ [CHR 0x27] @ ''%Y-%m-%d'' @ [CHR 0x27])"
  by (simp add: date_eval)

lemma strptime_february_30:
  "strptime ''2024-02-30'' = Inl (ValueError, ''day is out of range for month'')"
  by (simp add: date_eval)

theorem plan_trip_returns_on_parsed_dates_witness:
  "strptime ''2024-03-01'' = Inr \<lparr>year = 2024, month = 3, day = 1\<rparr>
   \<and> strptime ''2024-03-04'' = Inr \<lparr>year = 2024, month = 3, day = 4\<rparr>
   \<and> (\<exists>r. plan_trip \<lparr>provider = ''gemini'', agent = Some failing_engine\<rparr>
             ''Delhi'' ''Goa'' ''2024-03-01'' ''2024-03-04'' None (Some ''beach'') = Inr r
           \<and> ((map_of r ''status'' = Some ''success'' \<and> (\<exists>t. map_of r ''itinerary'' = Some t))
              \<or> (map_of r ''status'' = Some ''error'' \<and> (\<exists>m. map_of r ''message'' = Some m))))
   \<and> is_ascii ''tomorrow''
   \<and> plan_trip \<lparr>provider = ''gemini'', agent = Some canned_engine\<rparr>
        ''Delhi'' ''Goa'' ''tomorrow'' ''2024-03-04'' None None
       = Inl (ValueError, ''time data '' @ [CHR 0x27] @ ''tomorrow'' @ [CHR 0x27]
                          @ '' does not match format '' @ [CHR 0x27] @ ''%Y-%m-%d'' @ [CHR 0x27])
   \<and> is_ascii ''2024-02-30''
   \<and> strptime ''2024-02-30'' = Inl (ValueError, ''day is out of range for month'')
   \<and> plan_trip \<lparr>provider = ''demo'', agent = None\<rparr>
        ''Delhi'' ''Goa'' ''2024-03-01'' ''2024-02-30'' None None
       = Inl (ValueError, ''day is out of range for month'')"
proof -
  have a1: "is_ascii ''tomorrow''" and a2: "is_ascii ''2024-02-30''"
    by (simp_all add: is_ascii_def)
  have ok: "\<exists>r. plan_trip \<lparr>provider = ''gemini'', agent = Some failing_engine\<rparr>
             ''Delhi'' ''Goa'' ''2024-03-01'' ''2024-03-04'' None (Some ''beach'') = Inr r
           \<and> ((map_of r ''status'' = Some ''success'' \<and> (\<exists>t. map_of r ''itinerary'' = Some t))
              \<or> (map_of r ''status'' = Some ''error'' \<and> (\<exists>m. map_of r ''message'' = Some m)))"
    using plan_trip_returns_on_parsed_dates
            [of "''2024-03-01''" "''2024-03-04''"
                "\<lparr>provider = ''gemini'', agent = Some failing_engine\<rparr>"
                "''Delhi''" "''Goa''" None "Some ''beach''"]
          strptime_march_1 strptime_march_4
    by blast
  have bad_start: "plan_trip \<lparr>provider = ''gemini'', agent = Some canned_engine\<rparr>
        ''Delhi'' ''Goa'' ''tomorrow'' ''2024-03-04'' None None
       = Inl (ValueError, ''time data '' @ [CHR 0x27] @ ''tomorrow'' @ [CHR 0x27]
                          @ '' does not match format '' @ [CHR 0x27] @ ''%Y-%m-%d'' @ [CHR 0x27])"
    using plan_trip_returns_on_parsed_dates
            [of "''tomorrow''" "''2024-03-04''"
                "\<lparr>provider = ''gemini'', agent = Some canned_engine\<rparr>"
                "''Delhi''" "''Goa''" None None]
          a1 strptime_tomorrow
    by blast
  have bad_end: "plan_trip \<lparr>provider = ''demo'', agent = None\<rparr>
        ''Delhi'' ''Goa'' ''2024-03-01'' ''2024-02-30'' None None
       = Inl (ValueError, ''day is out of range for month'')"
    using plan_trip_returns_on_parsed_dates
            [of "''2024-03-01''" "''2024-02-30''" "\<lparr>provider = ''demo'', agent = None\<rparr>"
                "''Delhi''" "''Goa''" None None]
          a2 strptime_march_1 strptime_february_30
    by blast
  from strptime_march_1 strptime_march_4 ok a1 bad_start a2 strptime_february_30 bad_end
  show ?thesis by blast
qed

text \<open>
  C3 as stated fails: a start date that is not a date makes \<open>strptime\<close> raise
  \<open>ValueError\<close>, and \<open>plan_trip\<close> lets it through, in demo mode and with an engine.
\<close>

theorem plan_trip_malformed_date_counterexample:
  "plan_trip \<lparr>provider = ''demo'', agent = None\<rparr> ''Delhi'' ''Goa'' ''tomorrow'' ''2024-03-04''
     None None
     = Inl (ValueError, ''time data '' @ [CHR 0x27] @ ''tomorrow'' @ [CHR 0x27]
                        @ '' does not match format '' @ [CHR 0x27] @ ''%Y-%m-%d'' @ [CHR 0x27])
   \<and> plan_trip \<lparr>provider = ''gemini'', agent = Some canned_engine\<rparr>
       ''Delhi'' ''Goa'' ''tomorrow'' ''2024-03-04'' None None
     = Inl (ValueError, ''time data '' @ [CHR 0x27] @ ''tomorrow'' @ [CHR 0x27]
                        @ '' does not match format '' @ [CHR 0x27] @ ''%Y-%m-%d'' @ [CHR 0x27])"
  by (simp add: plan_trip_def demo_plan_trip_def date_eval)


section \<open>The hotel search of the agent\<close>

text \<open>
  C2 (amended). Hotel search applies no filter: for every input it answers status
  success with the one fixed hotel, rated 4.5 and priced 3200 a night.
\<close>

theorem hotel_search_fixed_answer:
  "dict_get (hotel_search input_str) ''status'' JNull = Inr (JStr ''success'')
   \<and> dict_get (hotel_search input_str) ''hotels'' JNull
       = Inr (JList [JDict [(''name'', JStr ''Sea View Resort''),
                            (''rating'', JFloat 9 (- 1)),
                            (''price_per_night'', JInt 3200),
                            (''amenities'', JList [JStr ''Pool'', JStr ''WiFi''])]])"
  by (simp add: hotel_search_def dict_get_def)

text \<open>
  C2 as stated fails: asked for Goa with a rating of at least 4.0 and a price of at most
  3000, the search answers with the hotel priced 3200, not with an empty list.
\<close>

theorem hotel_search_price_counterexample:
  "dict_get (hotel_search (''{'' @ [CHR 0x22] @ ''city'' @ [CHR 0x22] @ '': '' @ [CHR 0x22] @ ''Goa'' @ [CHR 0x22] @ '', '' @ [CHR 0x22] @ ''min_rating'' @ [CHR 0x22] @ '': 4.0, '' @ [CHR 0x22] @ ''max_price'' @ [CHR 0x22] @ '': 3000}'')) ''hotels'' JNull \<noteq> Inr (JList [])
   \<and> dict_get (hotel_search (''{'' @ [CHR 0x22] @ ''city'' @ [CHR 0x22] @ '': '' @ [CHR 0x22] @ ''Goa'' @ [CHR 0x22] @ '', '' @ [CHR 0x22] @ ''min_rating'' @ [CHR 0x22] @ '': 4.0, '' @ [CHR 0x22] @ ''max_price'' @ [CHR 0x22] @ '': 3000}'')) ''hotels'' JNull
       = Inr (JList [JDict [(''name'', JStr ''Sea View Resort''),
                            (''rating'', JFloat 9 (- 1)),
                            (''price_per_night'', JInt 3200),
                            (''amenities'', JList [JStr ''Pool'', JStr ''WiFi''])]])
   \<and> float_val 9 (- 1) \<ge> 4 \<and> (3200 :: int) > 3000"
  by (simp add: hotel_search_def dict_get_def float_val_def)


section \<open>The shapes \<open>load_json\<close> accepts\<close>

text \<open>
  C4 (amended). Loading a dataset file that holds a JSON document, on a call the cache
  does not answer, returns: a bare array as it is; for an object, the value under the
  first of the keys flights, hotels, places, data that it contains; for an object with
  none of these keys, a one-element list holding the object; for any other document, an
  empty list.
\<close>

theorem load_json_shapes:
  assumes "map_of cache (ident self, filename) = None"
    and "fs (path_join (data_path self) filename) = Some (Document data)"
  shows "fst (load_json fs cache self filename) =
           Inr (case data of
                  JList xs \<Rightarrow> JList xs
                | JDict kvs \<Rightarrow>
                    (case map_of kvs ''flights'' of
                       Some v \<Rightarrow> v
                     | None \<Rightarrow>
                         (case map_of kvs ''hotels'' of
                            Some v \<Rightarrow> v
                          | None \<Rightarrow>
                              (case map_of kvs ''places'' of
                                 Some v \<Rightarrow> v
                               | None \<Rightarrow>
                                   (case map_of kvs ''data'' of
                                      Some v \<Rightarrow> v
                                    | None \<Rightarrow> JList [JDict kvs]))))
                | _ \<Rightarrow> JList [])"
  using assms
  by (cases data) (simp_all add: load_json_def load_json_body_def Let_def split: option.splits)

theorem load_json_shapes_witness:
  "map_of ([] :: lru) (ident \<lparr>ident = 0, data_path = ''data/''\<rparr>, ''hotels.json'') = None
   \<and> [''data/hotels.json'' \<mapsto> Document (JDict [(''count'', JInt 1), (''hotels'', JList [JStr ''Sea View Resort''])])]
        (path_join (data_path \<lparr>ident = 0, data_path = ''data/''\<rparr>) ''hotels.json'')
      = Some (Document (JDict [(''count'', JInt 1), (''hotels'', JList [JStr ''Sea View Resort''])]))
   \<and> fst (load_json
            [''data/hotels.json'' \<mapsto> Document (JDict [(''count'', JInt 1), (''hotels'', JList [JStr ''Sea View Resort''])])]
            [] \<lparr>ident = 0, data_path = ''data/''\<rparr> ''hotels.json'')
      = Inr (JList [JStr ''Sea View Resort''])"
proof -
  let ?doc = "JDict [(''count'', JInt 1), (''hotels'', JList [JStr ''Sea View Resort''])]"
  let ?self = "\<lparr>ident = 0, data_path = ''data/''\<rparr>"
  have h1: "map_of ([] :: lru) (ident ?self, ''hotels.json'') = None" by simp
  have h2: "[''data/hotels.json'' \<mapsto> Document ?doc] (path_join (data_path ?self) ''hotels.json'')
            = Some (Document ?doc)"
    by (simp add: path_join_def)
  from load_json_shapes [where fs = "[''data/hotels.json'' \<mapsto> Document ?doc]" and cache = "[]"
                            and self = ?self and filename = "''hotels.json''" and data = ?doc,
                          OF h1 h2] h1 h2
  show ?thesis by simp
qed

text \<open>
  C4 as stated fails: an object with none of the four keys does not yield an empty
  collection; it comes back wrapped in a one-element list.
\<close>

theorem load_json_object_counterexample:
  "fst (load_json [''data/hotels.json'' \<mapsto> Document (JDict [(''name'', JStr ''Sea View Resort'')])]
          [] \<lparr>ident = 0, data_path = ''data/''\<rparr> ''hotels.json'')
     = Inr (JList [JDict [(''name'', JStr ''Sea View Resort'')]])
   \<and> fst (load_json [''data/hotels.json'' \<mapsto> Document (JDict [(''name'', JStr ''Sea View Resort'')])]
          [] \<lparr>ident = 0, data_path = ''data/''\<rparr> ''hotels.json'')
     \<noteq> Inr (JList [])"
  by (simp add: load_json_def load_json_body_def path_join_def)


section \<open>Which flights a search matches\<close>

lemma flight_matches_record:
  assumes "is_dict f"
    and "is_str (field_or ''source'' (JStr []) f)"
    and "is_str (field_or ''destination'' (JStr []) f)"
  shows "flight_matches f sl dl =
           Inr (str_lower (str_val (field_or ''source'' (JStr []) f)) = sl
                \<and> str_lower (str_val (field_or ''destination'' (JStr []) f)) = dl)"
proof -
  from assms(1) obtain kvs where f: "f = JDict kvs" by (cases f) simp_all
  from assms(2) obtain s where s: "field_or ''source'' (JStr []) f = JStr s"
    by (cases "field_or ''source'' (JStr []) f") simp_all
  from assms(3) obtain d where d: "field_or ''destination'' (JStr []) f = JStr d"
    by (cases "field_or ''destination'' (JStr []) f") simp_all
  from s d show ?thesis
    unfolding f by (simp add: flight_matches_def dict_get_def json_lower_def)
qed

lemma select_flights_records:
  assumes "\<forall>f\<in>set fs. is_dict f \<and> is_str (field_or ''source'' (JStr []) f)
                       \<and> is_str (field_or ''destination'' (JStr []) f)"
  shows "select_flights fs sl dl =
           Inr (filter (\<lambda>f. str_lower (str_val (field_or ''source'' (JStr []) f)) = sl
                           \<and> str_lower (str_val (field_or ''destination'' (JStr []) f)) = dl) fs)"
  using assms
proof (induction fs)
  case Nil
  show ?case by simp
next
  case (Cons f fs)
  then have m: "flight_matches f sl dl =
           Inr (str_lower (str_val (field_or ''source'' (JStr []) f)) = sl
                \<and> str_lower (str_val (field_or ''destination'' (JStr []) f)) = dl)"
    by (intro flight_matches_record) simp_all
  from Cons show ?case by (simp add: m)
qed

text \<open>
  C5 (amended). For ASCII text, a request whose source and destination are ASCII and a
  dataset of records whose city fields are ASCII text: flight search matches a record if
  and only if its source and destination, lower-cased, are equal to the requested source
  and destination, lower-cased and trimmed. The comparison is case-insensitive on both
  sides and whitespace-trimmed on the side of the query only. The matches keep the order
  of the dataset.
\<close>

theorem filter_flights_matches:
  assumes "is_ascii source"
    and "is_ascii destination"
    and "\<forall>f\<in>set flights_data.
           is_dict f
           \<and> is_str (field_or ''source'' (JStr []) f)
           \<and> is_ascii (str_val (field_or ''source'' (JStr []) f))
           \<and> is_str (field_or ''destination'' (JStr []) f)
           \<and> is_ascii (str_val (field_or ''destination'' (JStr []) f))"
  shows "filter_flights flights_data source destination =
           Inr (filter (\<lambda>f. str_lower (str_val (field_or ''source'' (JStr []) f))
                               = str_strip (str_lower source)
                           \<and> str_lower (str_val (field_or ''destination'' (JStr []) f))
                               = str_strip (str_lower destination))
                       flights_data)"
proof -
  from assms(3) have "\<forall>f\<in>set flights_data. is_dict f \<and> is_str (field_or ''source'' (JStr []) f)
                                         \<and> is_str (field_or ''destination'' (JStr []) f)"
    by blast
  from select_flights_records [OF this] show ?thesis
    by (simp add: filter_flights_def Let_def)
qed

lemmas str_eval = str_strip_def str_lower_def lower_char_def ascii_lower_def ascii_upper_def
  isspace_def

theorem filter_flights_matches_witness:
  "is_ascii '' DELHI '' \<and> is_ascii ''goa''
   \<and> is_dict (JDict [(''source'', JStr ''Delhi''), (''destination'', JStr ''Goa'')])
   \<and> is_str (field_or ''source'' (JStr [])
                (JDict [(''source'', JStr ''Delhi''), (''destination'', JStr ''Goa'')]))
   \<and> is_ascii (str_val (field_or ''source'' (JStr [])
                (JDict [(''source'', JStr ''Delhi''), (''destination'', JStr ''Goa'')])))
   \<and> is_str (field_or ''destination'' (JStr [])
                (JDict [(''source'', JStr ''Delhi''), (''destination'', JStr ''Goa'')]))
   \<and> is_ascii (str_val (field_or ''destination'' (JStr [])
                (JDict [(''source'', JStr ''Delhi''), (''destination'', JStr ''Goa'')])))
   \<and> is_dict (JDict [(''source'', JStr ''Mumbai''), (''destination'', JStr ''Goa'')])
   \<and> is_str (field_or ''source'' (JStr [])
                (JDict [(''source'', JStr ''Mumbai''), (''destination'', JStr ''Goa'')]))
   \<and> is_ascii (str_val (field_or ''source'' (JStr [])
                (JDict [(''source'', JStr ''Mumbai''), (''destination'', JStr ''Goa'')])))
   \<and> is_str (field_or ''destination'' (JStr [])
                (JDict [(''source'', JStr ''Mumbai''), (''destination'', JStr ''Goa'')]))
   \<and> is_ascii (str_val (field_or ''destination'' (JStr [])
                (JDict [(''source'', JStr ''Mumbai''), (''destination'', JStr ''Goa'')])))
   \<and> filter_flights [JDict [(''source'', JStr ''Delhi''), (''destination'', JStr ''Goa'')],
                      JDict [(''source'', JStr ''Mumbai''), (''destination'', JStr ''Goa'')]]
                     '' DELHI '' ''goa''
     = Inr [JDict [(''source'', JStr ''Delhi''), (''destination'', JStr ''Goa'')]]"
proof -
  let ?data = "[JDict [(''source'', JStr ''Delhi''), (''destination'', JStr ''Goa'')],
                JDict [(''source'', JStr ''Mumbai''), (''destination'', JStr ''Goa'')]]"
  have q: "is_ascii '' DELHI ''" "is_ascii ''goa''"
    by (simp_all add: is_ascii_def)
  have h: "\<forall>f\<in>set ?data.
             is_dict f
             \<and> is_str (field_or ''source'' (JStr []) f)
             \<and> is_ascii (str_val (field_or ''source'' (JStr []) f))
             \<and> is_str (field_or ''destination'' (JStr []) f)
             \<and> is_ascii (str_val (field_or ''destination'' (JStr []) f))"
    by (simp add: is_ascii_def)
  have "filter_flights ?data '' DELHI '' ''goa''
          = Inr [JDict [(''source'', JStr ''Delhi''), (''destination'', JStr ''Goa'')]]"
    unfolding filter_flights_matches [OF q h] by (simp add: str_eval)
  with q show ?thesis by (simp add: is_ascii_def)
qed

text \<open>
  C5 as stated fails: a record whose source is written with a trailing blank is equal to
  the request once both sides are lower-cased and trimmed, and the search does not match
  it.
\<close>

theorem filter_flights_untrimmed_record_counterexample:
  "str_strip (str_lower ''Delhi '') = str_strip (str_lower ''Delhi'')
   \<and> str_strip (str_lower ''Goa'') = str_strip (str_lower ''Goa'')
   \<and> filter_flights [JDict [(''source'', JStr ''Delhi ''), (''destination'', JStr ''Goa'')]]
                     ''Delhi'' ''Goa''
     = Inr []"
  by (simp add: filter_flights_def flight_matches_def dict_get_def json_lower_def str_eval)


section \<open>The order of the flights found\<close>

lemma collect_map_Inr: "collect (map (\<lambda>x. Inr (g x)) xs) = Inr (map g xs)"
  by (induction xs) simp_all

lemma dict_get_record: "is_dict x \<Longrightarrow> dict_get x k d = Inr (field_or k d x)"
  by (cases x) (simp_all add: dict_get_def)

lemma zip_decorate: "zip (map g xs) xs = map (\<lambda>y. (g y, y)) xs"
  by (induction xs) simp_all

lemma insort_key_decorate:
  "insort_key (\<lambda>kx. h (fst kx)) (g x, x) (map (\<lambda>y. (g y, y)) ys)
     = map (\<lambda>y. (g y, y)) (insort_key (\<lambda>y. h (g y)) x ys)"
  by (induction ys) simp_all

lemma sort_key_decorate:
  "sort_key (\<lambda>kx. h (fst kx)) (map (\<lambda>y. (g y, y)) xs)
     = map (\<lambda>y. (g y, y)) (sort_key (\<lambda>y. h (g y)) xs)"
  by (induction xs) (simp_all add: insort_key_decorate)

lemma sort_key_short: "length xs < 2 \<Longrightarrow> sort_key f xs = xs"
proof (cases xs)
  case Nil
  then show ?thesis by simp
next
  case (Cons a as)
  assume "length xs < 2"
  with Cons have "as = []" by simp
  with Cons show ?thesis by simp
qed

lemma py_sorted_numbers:
  assumes "\<forall>x\<in>set xs. is_dict x \<and> is_number (field_or k d x)"
  shows "py_sorted (\<lambda>x. dict_get x k d) xs
           = Some (Inr (sort_key (\<lambda>x. num_val (field_or k d x)) xs))"
proof -
  from assms have eq: "map (\<lambda>x. dict_get x k d) xs = map (\<lambda>x. Inr (field_or k d x)) xs"
    by (simp add: dict_get_record)
  have keys: "collect (map (\<lambda>x. dict_get x k d) xs) = Inr (map (field_or k d) xs)"
    unfolding eq by (rule collect_map_Inr)
  from assms have nums: "list_all is_number (map (field_or k d) xs)"
    by (simp add: list_all_iff)
  have undecorate:
    "map snd (sort_key (\<lambda>kx. num_val (fst kx)) (zip (map (field_or k d) xs) xs))
       = sort_key (\<lambda>x. num_val (field_or k d x)) xs"
    by (simp add: zip_decorate sort_key_decorate comp_def)
  show ?thesis
    unfolding py_sorted_def keys
    by (simp add: nums undecorate sort_key_short del: sort_key_simps)
qed

text \<open>
  C6. For every list of matching flights, records whose price and duration, where
  present, are numbers: sorting by price returns the flights in an order non-decreasing
  in price, sorting by duration returns them in an order non-decreasing in duration
  minutes (an absent price counts as 999999, an absent duration as 999), and in both
  cases the output is a rearrangement of the input in which flights with equal keys keep
  their original order.
\<close>

theorem sort_flights_sorted_stable:
  assumes "\<forall>f\<in>set flights. is_dict f \<and> is_number (field_or ''price'' (JInt 999999) f)
                            \<and> is_number (field_or ''duration_minutes'' (JInt 999) f)"
  shows "(\<exists>out. sort_flights flights ''price'' = Some (Inr out)
            \<and> sorted (map price_of out)
            \<and> mset out = mset flights
            \<and> (\<forall>k. filter (\<lambda>f. price_of f = k) out = filter (\<lambda>f. price_of f = k) flights))
       \<and> (\<exists>out. sort_flights flights ''duration'' = Some (Inr out)
            \<and> sorted (map duration_of out)
            \<and> mset out = mset flights
            \<and> (\<forall>k. filter (\<lambda>f. duration_of f = k) out
                     = filter (\<lambda>f. duration_of f = k) flights))"
proof -
  have p: "sort_flights flights ''price'' = Some (Inr (sort_key price_of flights))"
    using assms by (simp add: sort_flights_def py_sorted_numbers price_of_def [abs_def])
  have d: "sort_flights flights ''duration'' = Some (Inr (sort_key duration_of flights))"
    using assms by (simp add: sort_flights_def py_sorted_numbers duration_of_def [abs_def])
  have "sorted (map price_of (sort_key price_of flights))"
    and "sorted (map duration_of (sort_key duration_of flights))"
    by simp_all
  moreover have "mset (sort_key price_of flights) = mset flights"
    and "mset (sort_key duration_of flights) = mset flights"
    by simp_all
  moreover have "\<forall>k. filter (\<lambda>f. price_of f = k) (sort_key price_of flights)
                      = filter (\<lambda>f. price_of f = k) flights"
    and "\<forall>k. filter (\<lambda>f. duration_of f = k) (sort_key duration_of flights)
              = filter (\<lambda>f. duration_of f = k) flights"
    by (simp_all add: sort_key_stable)
  ultimately show ?thesis
    unfolding p d by blast
qed

theorem sort_flights_sorted_stable_witness:
  "is_dict (JDict [(''flight_id'', JStr ''6E-123''), (''duration_minutes'', JInt 165), (''price'', JInt 4800)])
   \<and> is_number (field_or ''price'' (JInt 999999)
        (JDict [(''flight_id'', JStr ''6E-123''), (''duration_minutes'', JInt 165), (''price'', JInt 4800)]))
   \<and> is_number (field_or ''duration_minutes'' (JInt 999)
        (JDict [(''flight_id'', JStr ''6E-123''), (''duration_minutes'', JInt 165), (''price'', JInt 4800)]))
   \<and> is_dict (JDict [(''flight_id'', JStr ''SG-456''), (''duration_minutes'', JInt 150), (''price'', JInt 5200)])
   \<and> is_number (field_or ''price'' (JInt 999999)
        (JDict [(''flight_id'', JStr ''SG-456''), (''duration_minutes'', JInt 150), (''price'', JInt 5200)]))
   \<and> is_number (field_or ''duration_minutes'' (JInt 999)
        (JDict [(''flight_id'', JStr ''SG-456''), (''duration_minutes'', JInt 150), (''price'', JInt 5200)]))
   \<and> is_dict (JDict [(''flight_id'', JStr ''AI-789''), (''duration_minutes'', JInt 150), (''price'', JInt 4800)])
   \<and> is_number (field_or ''price'' (JInt 999999)
        (JDict [(''flight_id'', JStr ''AI-789''), (''duration_minutes'', JInt 150), (''price'', JInt 4800)]))
   \<and> is_number (field_or ''duration_minutes'' (JInt 999)
        (JDict [(''flight_id'', JStr ''AI-789''), (''duration_minutes'', JInt 150), (''price'', JInt 4800)]))
   \<and> (\<exists>out. sort_flights
        [JDict [(''flight_id'', JStr ''6E-123''), (''duration_minutes'', JInt 165), (''price'', JInt 4800)],
         JDict [(''flight_id'', JStr ''SG-456''), (''duration_minutes'', JInt 150), (''price'', JInt 5200)],
         JDict [(''flight_id'', JStr ''AI-789''), (''duration_minutes'', JInt 150), (''price'', JInt 4800)]]
        ''price'' = Some (Inr out)
      \<and> sorted (map price_of out))
   \<and> sort_flights
        [JDict [(''flight_id'', JStr ''6E-123''), (''duration_minutes'', JInt 165), (''price'', JInt 4800)],
         JDict [(''flight_id'', JStr ''SG-456''), (''duration_minutes'', JInt 150), (''price'', JInt 5200)],
         JDict [(''flight_id'', JStr ''AI-789''), (''duration_minutes'', JInt 150), (''price'', JInt 4800)]]
        ''price''
      = Some (Inr [JDict [(''flight_id'', JStr ''6E-123''), (''duration_minutes'', JInt 165), (''price'', JInt 4800)],
                   JDict [(''flight_id'', JStr ''AI-789''), (''duration_minutes'', JInt 150), (''price'', JInt 4800)],
                   JDict [(''flight_id'', JStr ''SG-456''), (''duration_minutes'', JInt 150), (''price'', JInt 5200)]])
   \<and> sort_flights
        [JDict [(''flight_id'', JStr ''6E-123''), (''duration_minutes'', JInt 165), (''price'', JInt 4800)],
         JDict [(''flight_id'', JStr ''SG-456''), (''duration_minutes'', JInt 150), (''price'', JInt 5200)],
         JDict [(''flight_id'', JStr ''AI-789''), (''duration_minutes'', JInt 150), (''price'', JInt 4800)]]
        ''duration''
      = Some (Inr [JDict [(''flight_id'', JStr ''SG-456''), (''duration_minutes'', JInt 150), (''price'', JInt 5200)],
                   JDict [(''flight_id'', JStr ''AI-789''), (''duration_minutes'', JInt 150), (''price'', JInt 4800)],
                   JDict [(''flight_id'', JStr ''6E-123''), (''duration_minutes'', JInt 165), (''price'', JInt 4800)]])"
proof -
  let ?a = "JDict [(''flight_id'', JStr ''6E-123''), (''duration_minutes'', JInt 165), (''price'', JInt 4800)]"
  let ?b = "JDict [(''flight_id'', JStr ''SG-456''), (''duration_minutes'', JInt 150), (''price'', JInt 5200)]"
  let ?c = "JDict [(''flight_id'', JStr ''AI-789''), (''duration_minutes'', JInt 150), (''price'', JInt 4800)]"
  have h: "\<forall>f\<in>set [?a, ?b, ?c]. is_dict f \<and> is_number (field_or ''price'' (JInt 999999) f)
                                 \<and> is_number (field_or ''duration_minutes'' (JInt 999) f)"
    by simp
  have byprice: "sort_flights [?a, ?b, ?c] ''price'' = Some (Inr [?a, ?c, ?b])"
    by (simp add: sort_flights_def py_sorted_def dict_get_def)
  have bytime: "sort_flights [?a, ?b, ?c] ''duration'' = Some (Inr [?b, ?c, ?a])"
    by (simp add: sort_flights_def py_sorted_def dict_get_def)
  from sort_flights_sorted_stable [OF h]
  have "\<exists>out. sort_flights [?a, ?b, ?c] ''price'' = Some (Inr out) \<and> sorted (map price_of out)"
    by blast
  with byprice bytime show ?thesis by simp
qed


section \<open>Weather advice and the length of a forecast\<close>

lemma collect_length: "collect rs = Inr vs \<Longrightarrow> length vs = length rs"
proof (induction rs arbitrary: vs)
  case Nil
  then show ?case by simp
next
  case (Cons r rs)
  then show ?case
    by (cases r; cases "collect rs") auto
qed

lemma tips_distinct:
  "hot_tip \<noteq> cold_tip" "hot_tip \<noteq> moderate_tip" "cold_tip \<noteq> moderate_tip"
  "umbrella_tip \<noteq> no_rain_tip"
  by (simp_all add: hot_tip_def cold_tip_def moderate_tip_def umbrella_tip_def no_rain_tip_def)

lemma clothing_tip_cases:
  "(clothing_tip a = hot_tip \<longleftrightarrow> 30 < a)
   \<and> (clothing_tip a = cold_tip \<longleftrightarrow> a < 20)
   \<and> (clothing_tip a = moderate_tip \<longleftrightarrow> 20 \<le> a \<and> a \<le> 30)"
  using tips_distinct by (auto simp: clothing_tip_def)

lemma rain_tip_cases:
  "(rain_tip b = umbrella_tip \<longleftrightarrow> b) \<and> (rain_tip b = no_rain_tip \<longleftrightarrow> \<not> b)"
  using tips_distinct by (auto simp: rain_tip_def)

lemma format_weather_body_Inr:
  assumes "format_weather_body L city_name d days = Inr output"
  shows "days \<noteq> 0
         \<and> (\<exists>entries. forecast_entries L d days = Inr entries
              \<and> output = forecast_heading city_name @ concat entries @ tips_heading
                  @ clothing_tip (float_div L (float_sum L (py_take days (temperature_2m_max d)))
                                              days)
                  @ rain_tip (list_ex (\<lambda>p. p > 5) (py_take days (precipitation_sum d))))"
  using assms
  by (cases "forecast_entries L d days")
     (auto simp: format_weather_body_def Let_def split: if_splits)

text \<open>
  C7 (amended). For every forecast the formatter renders, with a window of
  \<open>days\<close> days, at least one and no more than the forecast has: the clothing advice is
  the hot advice exactly when the average high temperature over the window, as the code
  computes it (the floating-point sum of the window's highs divided by the number of its
  days), is above 30, the cold advice exactly when it is below 20, and the moderate advice
  otherwise (from 20 to 30, both included); the rain-gear advice is given exactly when
  some day of the window has more than 5 mm of precipitation, and the no-rain advice
  otherwise.
\<close>

theorem weather_tips_thresholds:
  assumes "1 \<le> days"
    and "days \<le> int (length (temperature_2m_max d))"
    and "format_weather_body L city_name d days = Inr output"
  shows "\<exists>pre clothing rain.
           output = pre @ tips_heading @ clothing @ rain
         \<and> (clothing = hot_tip
              \<longleftrightarrow> 30 < float_div L (float_sum L (take (nat days) (temperature_2m_max d)))
                                     (int (length (take (nat days) (temperature_2m_max d)))))
         \<and> (clothing = cold_tip
              \<longleftrightarrow> float_div L (float_sum L (take (nat days) (temperature_2m_max d)))
                                (int (length (take (nat days) (temperature_2m_max d)))) < 20)
         \<and> (clothing = moderate_tip
              \<longleftrightarrow> 20 \<le> float_div L (float_sum L (take (nat days) (temperature_2m_max d)))
                                      (int (length (take (nat days) (temperature_2m_max d))))
                  \<and> float_div L (float_sum L (take (nat days) (temperature_2m_max d)))
                                 (int (length (take (nat days) (temperature_2m_max d)))) \<le> 30)
         \<and> (rain = umbrella_tip
              \<longleftrightarrow> (\<exists>p\<in>set (take (nat days) (precipitation_sum d)). 5 < p))
         \<and> (rain = no_rain_tip
              \<longleftrightarrow> \<not> (\<exists>p\<in>set (take (nat days) (precipitation_sum d)). 5 < p))"
proof -
  let ?window = "take (nat days) (temperature_2m_max d)"
  let ?avg = "float_div L (float_sum L ?window) (int (length ?window))"
  let ?wet = "\<exists>p\<in>set (take (nat days) (precipitation_sum d)). 5 < p"
  from assms(1) have take_eq: "\<And>xs :: rat list. py_take days xs = take (nat days) xs"
    by (simp add: py_take_def)
  from assms(1,2) have len: "int (length ?window) = days"
    by simp
  have avg: "float_div L (float_sum L (py_take days (temperature_2m_max d))) days = ?avg"
    unfolding take_eq len by (rule refl)
  have wet: "list_ex (\<lambda>p. p > 5) (py_take days (precipitation_sum d)) = ?wet"
    by (simp add: take_eq list_ex_iff)
  from format_weather_body_Inr [OF assms(3)] obtain entries where
    raw: "output = forecast_heading city_name @ concat entries @ tips_heading
                   @ clothing_tip (float_div L (float_sum L (py_take days (temperature_2m_max d)))
                                               days)
                   @ rain_tip (list_ex (\<lambda>p. p > 5) (py_take days (precipitation_sum d)))"
    by blast
  have out: "output = (forecast_heading city_name @ concat entries) @ tips_heading
                      @ clothing_tip ?avg @ rain_tip ?wet"
    unfolding raw avg wet by simp
  note c = clothing_tip_cases [of ?avg]
  note r = rain_tip_cases [of ?wet]
  show ?thesis
  proof (intro exI conjI)
    show "output = (forecast_heading city_name @ concat entries) @ tips_heading
                   @ clothing_tip ?avg @ rain_tip ?wet"
      by (fact out)
    show "clothing_tip ?avg = hot_tip \<longleftrightarrow> 30 < ?avg"
      using c by (rule conjunct1)
    show "clothing_tip ?avg = cold_tip \<longleftrightarrow> ?avg < 20"
      using c by (elim conjE)
    show "clothing_tip ?avg = moderate_tip \<longleftrightarrow> 20 \<le> ?avg \<and> ?avg \<le> 30"
      using c by (elim conjE)
    show "rain_tip ?wet = umbrella_tip \<longleftrightarrow> ?wet"
      using r by (rule conjunct1)
    show "rain_tip ?wet = no_rain_tip \<longleftrightarrow> \<not> ?wet"
      using r by (rule conjunct2)
  qed
qed

lemmas weather_eval = format_weather_output_def format_weather_body_def forecast_entries_def
  day_entry_def py_index_def py_take_def interpret_weather_code_def WEATHER_CODES_def
  forecast_heading_def tips_heading_def clothing_tip_def rain_tip_def hot_tip_def cold_tip_def
  moderate_tip_def umbrella_tip_def no_rain_tip_def bullet_def degree_def nl_def
  sample_lib_def floor_text_def exact_div_def steady_week_def first_days_def str_int_def digits.simps
  upt_rec Let_def

lemma three_steady_days:
  "format_weather_body sample_lib ''Goa'' (first_days 3 steady_week) 3
     = Inr (format_weather_output sample_lib ''Goa'' (first_days 3 steady_week) 3)"
  by (simp add: weather_eval)

theorem weather_tips_thresholds_witness:
  "(1 :: int) \<le> 3
   \<and> 3 \<le> int (length (temperature_2m_max (first_days 3 steady_week)))
   \<and> float_div sample_lib
         (float_sum sample_lib (take (nat 3) (temperature_2m_max (first_days 3 steady_week))))
         (int (length (take (nat 3) (temperature_2m_max (first_days 3 steady_week))))) = 30
   \<and> (\<exists>pre. format_weather_output sample_lib ''Goa'' (first_days 3 steady_week) 3
              = pre @ tips_heading @ moderate_tip @ no_rain_tip)"
proof -
  let ?d = "first_days 3 steady_week"
  have h1: "(1 :: int) \<le> 3" by simp
  have h2: "3 \<le> int (length (temperature_2m_max ?d))"
    by (simp add: first_days_def steady_week_def)
  have avg: "float_div sample_lib (float_sum sample_lib (take (nat 3) (temperature_2m_max ?d)))
               (int (length (take (nat 3) (temperature_2m_max ?d)))) = 30"
    by (simp add: first_days_def steady_week_def sample_lib_def exact_div_def)
  have dry: "\<not> (\<exists>p\<in>set (take (nat 3) (precipitation_sum ?d)). 5 < p)"
    by (simp add: first_days_def steady_week_def)
  from weather_tips_thresholds [OF h1 h2 three_steady_days]
  obtain pre clothing rain where
    "format_weather_output sample_lib ''Goa'' ?d 3 = pre @ tips_heading @ clothing @ rain"
    and "clothing = moderate_tip" and "rain = no_rain_tip"
    unfolding avg using dry by auto
  with h1 h2 avg show ?thesis by blast
qed

text \<open>
  C7 as stated fails: three days with a high of exactly 30 have an average high of 30,
  in exact and in double-precision arithmetic alike, which the claim calls hot; the
  formatter gives the moderate advice and not the hot one.
\<close>

theorem weather_tips_thirty_counterexample:
  "(30 :: rat) \<le> sum_list (temperature_2m_max (first_days 3 steady_week)) / 3
   \<and> suffix (tips_heading @ moderate_tip @ no_rain_tip)
        (format_weather_output sample_lib ''Goa'' (first_days 3 steady_week) 3)
   \<and> \<not> sublist hot_tip
        (format_weather_output sample_lib ''Goa'' (first_days 3 steady_week) 3)"
  by (simp add: weather_eval suffix_to_prefix sublist_Cons_right)

text \<open>
  C8. For every weather lookup of a known city with more than 7 requested days, against
  a service that answers with no more days than it is asked for: the request sent asks
  for 7 days; and whatever the service answers, the tool returns a text, either the
  forecast, which has as many day entries as the answer has days and so at most 7, or the
  message of the fault met while formatting, an index out of range among them, which does
  not escape.
\<close>

theorem weather_days_clamped:
  assumes "7 < days"
    and "\<forall>req d. api req = Some d \<longrightarrow> int (length (time d)) \<le> forecast_days req"
    and "get_coordinates city = Some (lat, lon, name)"
  shows "forecast_days (fetch_request lat lon days) = 7
       \<and> fetch_weather_data api lat lon days = api (fetch_request lat lon days)
       \<and> (\<forall>d. api (fetch_request lat lon days) = Some d \<longrightarrow>
             (case forecast_entries L d days of
                Inr entries \<Rightarrow>
                  length entries = length (time d) \<and> length entries \<le> 7
                  \<and> (\<exists>tips. weather_run L api city days
                               = forecast_heading name @ concat entries @ tips_heading @ tips)
              | Inl e \<Rightarrow>
                  weather_run L api city days = ''Error formatting weather data: '' @ snd e))"
proof -
  have req: "forecast_days (fetch_request lat lon days) = 7"
    using assms(1) by (simp add: fetch_request_def)
  have sent: "fetch_weather_data api lat lon days = api (fetch_request lat lon days)"
    by (simp add: fetch_weather_data_def)
  have answer: "case forecast_entries L d days of
                  Inr entries \<Rightarrow>
                    length entries = length (time d) \<and> length entries \<le> 7
                    \<and> (\<exists>tips. weather_run L api city days
                                 = forecast_heading name @ concat entries @ tips_heading @ tips)
                | Inl e \<Rightarrow>
                    weather_run L api city days = ''Error formatting weather data: '' @ snd e"
    if got: "api (fetch_request lat lon days) = Some d" for d
  proof -
    from assms(2) got req have short: "length (time d) \<le> 7"
      by fastforce
    have run: "weather_run L api city days = format_weather_output L name d days"
      using assms(3) got by (simp add: weather_run_def sent)
    show ?thesis
    proof (cases "forecast_entries L d days")
      case (Inl e)
      then show ?thesis
        by (simp add: run format_weather_output_def format_weather_body_def)
    next
      case (Inr entries)
      then have "length entries = length (map (day_entry L d)
                    [0 ..< nat (min days (int (length (time d))))])"
        unfolding forecast_entries_def by (rule collect_length)
      with assms(1) short have n: "length entries = length (time d)"
        by simp
      from assms(1) have "days \<noteq> 0" by simp
      with Inr have "\<exists>tips. format_weather_output L name d days
                       = forecast_heading name @ concat entries @ tips_heading @ tips"
        by (simp add: format_weather_output_def format_weather_body_def Let_def)
      with Inr n short show ?thesis
        by (simp add: run)
    qed
  qed
  from req sent answer show ?thesis by blast
qed

lemma goa_coordinates:
  "get_coordinates ''Goa'' = Some (152993 / 10000, 741240 / 10000, ''Goa'')"
  by (simp add: get_coordinates_def CITY_COORDINATES_def str_strip_def str_lower_def
                lower_char_def ascii_lower_def ascii_upper_def isspace_def)

lemma sample_api_honours_request:
  "\<forall>req d. sample_api req = Some d \<longrightarrow> int (length (time d)) \<le> forecast_days req"
  by (auto simp: sample_api_def first_days_def split: if_splits)

lemma ten_days_asked_entries:
  "\<exists>entries. forecast_entries sample_lib (first_days 7 steady_week) 10 = Inr entries"
  by (simp add: forecast_entries_def day_entry_def py_index_def sample_lib_def
                first_days_def steady_week_def upt_rec Let_def)

theorem weather_days_clamped_witness:
  "(7 :: int) < 10
   \<and> get_coordinates ''Goa'' = Some (152993 / 10000, 741240 / 10000, ''Goa'')
   \<and> forecast_days (fetch_request (152993 / 10000) (741240 / 10000) 10) = 7
   \<and> sample_api (fetch_request (152993 / 10000) (741240 / 10000) 10)
       = Some (first_days 7 steady_week)
   \<and> (\<exists>entries tips.
         forecast_entries sample_lib (first_days 7 steady_week) 10 = Inr entries
         \<and> length entries = 7
         \<and> weather_run sample_lib sample_api ''Goa'' 10
             = forecast_heading ''Goa'' @ concat entries @ tips_heading @ tips)"
proof -
  let ?d = "first_days 7 steady_week"
  have h1: "(7 :: int) < 10" by simp
  have got: "sample_api (fetch_request (152993 / 10000) (741240 / 10000) 10) = Some ?d"
    by (simp add: sample_api_def fetch_request_def)
  have seven: "length (time ?d) = 7"
    by (simp add: first_days_def steady_week_def)
  from ten_days_asked_entries obtain entries where
    e: "forecast_entries sample_lib ?d 10 = Inr entries" by blast
  from weather_days_clamped [OF h1 sample_api_honours_request goa_coordinates,
                             where L = sample_lib]
  have req: "forecast_days (fetch_request (152993 / 10000) (741240 / 10000) 10) = 7"
    and ans: "case forecast_entries sample_lib ?d 10 of
                Inr entries \<Rightarrow>
                  length entries = length (time ?d) \<and> length entries \<le> 7
                  \<and> (\<exists>tips. weather_run sample_lib sample_api ''Goa'' 10
                               = forecast_heading ''Goa'' @ concat entries @ tips_heading @ tips)
              | Inl e \<Rightarrow>
                  weather_run sample_lib sample_api ''Goa'' 10
                    = ''Error formatting weather data: '' @ snd e"
    using got by blast+
  from ans have "length entries = 7
                 \<and> (\<exists>tips. weather_run sample_lib sample_api ''Goa'' 10
                              = forecast_heading ''Goa'' @ concat entries @ tips_heading @ tips)"
    unfolding e by (simp add: seven)
  with h1 goa_coordinates req got e show ?thesis
    by blast
qed


section \<open>The cache of \<open>load_json\<close>\<close>

lemma load_json_hit:
  assumes "map_of cache (ident self, n) = Some v"
  shows "load_json fs cache self n
           = (Inr v, False, ((ident self, n), v) # filter (\<lambda>kv. fst kv \<noteq> (ident self, n)) cache)"
  using assms by (simp add: load_json_def Let_def)

lemma load_json_miss_absent:
  assumes "map_of cache (ident self, n) = None"
    and "fs (path_join (data_path self) n) = None"
  shows "\<exists>e. load_json fs cache self n = (Inl e, False, cache)"
  using assms by (simp add: load_json_def load_json_body_def Let_def)

lemma load_json_miss_document:
  assumes "map_of cache (ident self, n) = None"
    and "fs (path_join (data_path self) n) = Some (Document doc)"
  shows "\<exists>v. load_json fs cache self n
               = (Inr v, True,
                  ((ident self, n), v) # (if length cache \<ge> maxsize then butlast cache else cache))"
  using assms by (simp add: load_json_def load_json_body_def Let_def)

lemma cache_has_room:
  assumes inv: "cache_within i N cache"
    and fin: "finite N"
    and small: "card N \<le> maxsize"
    and n: "n \<in> N"
    and new: "(i, n) \<notin> fst ` set cache"
  shows "length cache < maxsize"
proof -
  from inv have d: "distinct (map fst cache)" and sub: "fst ` set cache \<subseteq> {i} \<times> N"
    by (simp_all add: cache_within_def)
  from distinct_card [OF d] have "length cache = card (fst ` set cache)"
    by simp
  also from sub new have "\<dots> \<le> card (({i} \<times> N) - {(i, n)})"
    using fin by (intro card_mono) auto
  also from n fin have "\<dots> < card ({i} \<times> N)"
    by (intro card_Diff1_less) auto
  also have "\<dots> = card N"
    by (simp add: card_cartesian_product_singleton)
  finally show ?thesis
    using small by simp
qed

lemma load_json_step:
  assumes inv: "cache_within (ident self) N cache"
    and fin: "finite N"
    and small: "card N \<le> maxsize"
    and n: "n \<in> N"
    and wellformed: "\<forall>msg. fs (path_join (data_path self) n) \<noteq> Some (Malformed msg)"
    and run: "load_json fs cache self n = (r, opened, cache1)"
  shows "cache_within (ident self) N cache1"
    and "fst ` set cache \<subseteq> fst ` set cache1"
    and "opened \<longrightarrow> (ident self, n) \<notin> fst ` set cache"
    and "opened \<longrightarrow> (ident self, n) \<in> fst ` set cache1"
    and "(\<exists>doc. fs (path_join (data_path self) n) = Some (Document doc))
           \<longrightarrow> (ident self, n) \<in> fst ` set cache1"
proof -
  let ?k = "(ident self, n)"
  from inv have d: "distinct (map fst cache)"
    and sub: "fst ` set cache \<subseteq> {ident self} \<times> N"
    by (simp_all add: cache_within_def)
  have all: "cache_within (ident self) N cache1
             \<and> fst ` set cache \<subseteq> fst ` set cache1
             \<and> (opened \<longrightarrow> ?k \<notin> fst ` set cache)
             \<and> (opened \<longrightarrow> ?k \<in> fst ` set cache1)
             \<and> ((\<exists>doc. fs (path_join (data_path self) n) = Some (Document doc))
                  \<longrightarrow> ?k \<in> fst ` set cache1)"
  proof (cases "map_of cache ?k")
    case (Some v)
    with run load_json_hit [OF Some, of fs]
    have r: "opened = False" and c1: "cache1 = (?k, v) # filter (\<lambda>kv. fst kv \<noteq> ?k) cache"
      by simp_all
    from Some have mem: "?k \<in> fst ` set cache"
      by (metis map_of_eq_None_iff option.distinct(1))
    have keys: "fst ` set cache1 = fst ` set cache"
      unfolding c1 using mem by force
    from d have "distinct (map fst (filter (\<lambda>kv. fst kv \<noteq> ?k) cache))"
      by (rule distinct_map_filter)
    then have "distinct (map fst cache1)"
      unfolding c1 by auto
    with keys sub have "cache_within (ident self) N cache1"
      by (simp add: cache_within_def)
    with keys mem r show ?thesis by simp
  next
    case None
    then have new: "?k \<notin> fst ` set cache"
      by (simp add: map_of_eq_None_iff)
    show ?thesis
    proof (cases "fs (path_join (data_path self) n)")
      case absent: None
      from load_json_miss_absent [where fs = fs, OF None absent] run
      have "opened = False" and "cache1 = cache" by auto
      with inv absent show ?thesis by simp
    next
      case (Some contents)
      with wellformed obtain doc where doc: "fs (path_join (data_path self) n) = Some (Document doc)"
        by (cases contents) auto
      from cache_has_room [OF inv fin small n new] have room: "\<not> length cache \<ge> maxsize"
        by simp
      from load_json_miss_document [where fs = fs, OF None doc] run room
      obtain v where "opened = True" and c1: "cache1 = (?k, v) # cache"
        by auto
      moreover from d new sub n have "cache_within (ident self) N cache1"
        unfolding c1 by (auto simp: cache_within_def)
      moreover have "fst ` set cache \<subseteq> fst ` set cache1" and "?k \<in> fst ` set cache1"
        unfolding c1 by auto
      ultimately show ?thesis using new by simp
    qed
  qed
  from all show "cache_within (ident self) N cache1" by simp
  from all show "fst ` set cache \<subseteq> fst ` set cache1" by simp
  from all show "opened \<longrightarrow> ?k \<notin> fst ` set cache" by simp
  from all show "opened \<longrightarrow> ?k \<in> fst ` set cache1" by simp
  from all show "(\<exists>doc. fs (path_join (data_path self) n) = Some (Document doc))
                   \<longrightarrow> ?k \<in> fst ` set cache1" by simp
qed

lemma opens_of_Cons:
  "opens_of m ((n, r, opened) # trace) = (if n = m \<and> opened then 1 else 0) + opens_of m trace"
  by (simp add: opens_of_def)

lemma load_all_within:
  assumes "cache_within (ident self) N cache"
    and "finite N"
    and "card N \<le> maxsize"
    and "set names \<subseteq> N"
    and "\<forall>n\<in>set names. \<forall>msg. fs (path_join (data_path self) n) \<noteq> Some (Malformed msg)"
  shows "fst ` set cache \<subseteq> fst ` set (snd (load_all fs self names cache))
       \<and> (\<forall>m. (ident self, m) \<in> fst ` set cache
              \<longrightarrow> opens_of m (fst (load_all fs self names cache)) = 0)
       \<and> (\<forall>m. opens_of m (fst (load_all fs self names cache)) \<le> 1)
       \<and> (\<forall>m\<in>set names. (\<exists>doc. fs (path_join (data_path self) m) = Some (Document doc))
              \<longrightarrow> (ident self, m) \<in> fst ` set (snd (load_all fs self names cache)))"
  using assms
proof (induction names arbitrary: cache)
  case Nil
  show ?case by (simp add: opens_of_def)
next
  case (Cons n rest)
  obtain r opened cache1 where run: "load_json fs cache self n = (r, opened, cache1)"
    by (cases "load_json fs cache self n") auto
  obtain trace cache2 where tl: "load_all fs self rest cache1 = (trace, cache2)"
    by (cases "load_all fs self rest cache1") auto
  have whole: "load_all fs self (n # rest) cache = ((n, r, opened) # trace, cache2)"
    by (simp add: run tl)
  from Cons.prems have n: "n \<in> N"
    and wf: "\<forall>msg. fs (path_join (data_path self) n) \<noteq> Some (Malformed msg)"
    by simp_all
  note step = load_json_step [where fs = fs, OF Cons.prems(1) Cons.prems(2) Cons.prems(3) n wf run]
  from Cons.prems have "set rest \<subseteq> N"
    and "\<forall>n\<in>set rest. \<forall>msg. fs (path_join (data_path self) n) \<noteq> Some (Malformed msg)"
    by simp_all
  from Cons.IH [OF step(1) Cons.prems(2) Cons.prems(3) this]
  have keep: "fst ` set cache1 \<subseteq> fst ` set cache2"
    and none: "\<And>m. (ident self, m) \<in> fst ` set cache1 \<Longrightarrow> opens_of m trace = 0"
    and once: "\<And>m. opens_of m trace \<le> 1"
    and stay: "\<And>m. m \<in> set rest \<Longrightarrow> \<exists>doc. fs (path_join (data_path self) m) = Some (Document doc)
                 \<Longrightarrow> (ident self, m) \<in> fst ` set cache2"
    unfolding tl by auto
  have a: "fst ` set cache \<subseteq> fst ` set cache2"
    using step(2) keep by blast
  have b: "opens_of m ((n, r, opened) # trace) = 0" if "(ident self, m) \<in> fst ` set cache" for m
  proof -
    from that step(2) have "(ident self, m) \<in> fst ` set cache1" by blast
    then have "opens_of m trace = 0" by (rule none)
    moreover from that step(3) have "\<not> (n = m \<and> opened)" by blast
    ultimately show ?thesis by (simp add: opens_of_Cons)
  qed
  have c: "opens_of m ((n, r, opened) # trace) \<le> 1" for m
  proof (cases "n = m \<and> opened")
    case True
    with step(4) have "(ident self, m) \<in> fst ` set cache1" by blast
    then have "opens_of m trace = 0" by (rule none)
    with True show ?thesis by (simp add: opens_of_Cons)
  next
    case False
    with once [of m] show ?thesis by (auto simp: opens_of_Cons)
  qed
  have e: "(ident self, m) \<in> fst ` set cache2"
    if "m \<in> set (n # rest)" and "\<exists>doc. fs (path_join (data_path self) m) = Some (Document doc)" for m
  proof (cases "m = n")
    case True
    with that(2) step(5) have "(ident self, m) \<in> fst ` set cache1" by blast
    with keep show ?thesis by blast
  next
    case False
    with that(1) have "m \<in> set rest" by simp
    then show ?thesis using that(2) by (rule stay)
  qed
  from a b c e show ?case
    unfolding whole by simp
qed

lemma load_json_miss_malformed:
  assumes "map_of cache (ident self, n) = None"
    and "fs (path_join (data_path self) n) = Some (Malformed msg)"
  shows "\<exists>e. load_json fs cache self n = (Inl e, True, cache)"
  using assms by (simp add: load_json_def load_json_body_def Let_def)

lemma load_json_cases:
  "(\<exists>v. map_of cache (ident self, n) = Some v
        \<and> load_json fs cache self n
            = (Inr v, False,
               ((ident self, n), v) # filter (\<lambda>kv. fst kv \<noteq> (ident self, n)) cache))
   \<or> (\<exists>e opened. load_json fs cache self n = (Inl e, opened, cache))
   \<or> (\<exists>v. map_of cache (ident self, n) = None
        \<and> load_json fs cache self n
            = (Inr v, True,
               ((ident self, n), v) # (if maxsize \<le> length cache then butlast cache else cache)))"
proof (cases "map_of cache (ident self, n)")
  case (Some v)
  from load_json_hit [OF Some, of fs] Some show ?thesis by blast
next
  case None
  show ?thesis
  proof (cases "fs (path_join (data_path self) n)")
    case absent: None
    from load_json_miss_absent [where fs = fs, OF None absent] show ?thesis by blast
  next
    case (Some contents)
    show ?thesis
    proof (cases contents)
      case (Malformed msg)
      with Some have "fs (path_join (data_path self) n) = Some (Malformed msg)" by simp
      from load_json_miss_malformed [where fs = fs, OF None this] show ?thesis by blast
    next
      case (Document doc)
      with Some have "fs (path_join (data_path self) n) = Some (Document doc)" by simp
      from load_json_miss_document [where fs = fs, OF None this] None show ?thesis by blast
    qed
  qed
qed

lemma load_json_bounded:
  assumes "length cache \<le> maxsize"
  shows "length (snd (snd (load_json fs cache self n))) \<le> maxsize"
proof -
  let ?k = "(ident self, n)"
  from load_json_cases [of cache self n fs] consider
    (hit) v where "map_of cache ?k = Some v"
      "load_json fs cache self n = (Inr v, False, (?k, v) # filter (\<lambda>kv. fst kv \<noteq> ?k) cache)"
  | (raise) e opened where "load_json fs cache self n = (Inl e, opened, cache)"
  | (miss) v where
      "load_json fs cache self n
         = (Inr v, True, (?k, v) # (if maxsize \<le> length cache then butlast cache else cache))"
    by blast
  then show ?thesis
  proof cases
    case hit
    from hit(1) have "(?k, v) \<in> set cache"
      by (rule map_of_SomeD)
    then have "length (filter (\<lambda>kv. fst kv \<noteq> ?k) cache) < length cache"
      by (intro length_filter_less [of "(?k, v)"]) simp_all
    with assms show ?thesis
      by (simp add: hit(2))
  next
    case raise
    with assms show ?thesis by simp
  next
    case miss
    show ?thesis
    proof (cases "maxsize \<le> length cache")
      case True
      with assms have "length cache = maxsize" by simp
      then have "cache \<noteq> []" by (auto simp: maxsize_def)
      with assms True show ?thesis
        by (simp add: miss maxsize_def)
    next
      case False
      then show ?thesis
        by (simp add: miss)
    qed
  qed
qed

lemma load_json_raise_keeps_cache:
  assumes "fst (load_json fs cache self n) = Inl e"
  shows "snd (snd (load_json fs cache self n)) = cache"
  using load_json_cases [of cache self n fs] assms by auto

lemma load_json_evicts_last:
  assumes d: "distinct (map fst cache)"
    and miss: "map_of cache (ident self, n) = None"
    and doc: "fs (path_join (data_path self) n) = Some (Document doc)"
    and full: "maxsize \<le> length cache"
  shows "(\<exists>v. load_json fs cache self n = (Inr v, True, ((ident self, n), v) # butlast cache))
       \<and> map_of (snd (snd (load_json fs cache self n))) (fst (last cache)) = None
       \<and> (\<forall>k. k \<noteq> fst (last cache) \<and> k \<noteq> (ident self, n)
              \<longrightarrow> map_of (snd (snd (load_json fs cache self n))) k = map_of cache k)"
proof -
  let ?k = "(ident self, n)"
  from load_json_miss_document [where fs = fs, OF miss doc] full
  obtain v where run: "load_json fs cache self n = (Inr v, True, (?k, v) # butlast cache)"
    by auto
  from full have ne: "cache \<noteq> []"
    by (auto simp: maxsize_def)
  then have split: "cache = butlast cache @ [last cache]"
    by simp
  from ne have "last cache \<in> set cache"
    by simp
  then have inside: "fst (last cache) \<in> fst ` set cache"
    by (rule imageI)
  from miss have outside: "?k \<notin> fst ` set cache"
    by (simp add: map_of_eq_None_iff)
  have new: "?k \<noteq> fst (last cache)"
  proof
    assume eq: "?k = fst (last cache)"
    from inside have "?k \<in> fst ` set cache"
      unfolding eq .
    with outside show False ..
  qed
  from d split have "distinct (map fst (butlast cache @ [last cache]))"
    by simp
  then have "fst (last cache) \<notin> fst ` set (butlast cache)"
    by auto
  then have gone: "map_of (butlast cache) (fst (last cache)) = None"
    by (simp add: map_of_eq_None_iff)
  have rest: "map_of (butlast cache) k = map_of cache k" if "k \<noteq> fst (last cache)" for k
  proof -
    have "map_of cache k = map_of (butlast cache @ [last cache]) k"
      using split by simp
    also have "\<dots> = map_of (butlast cache) k"
      using that by (cases "map_of (butlast cache) k") (simp_all add: map_add_def)
    finally show ?thesis by simp
  qed
  from run new gone rest show ?thesis
    by (auto simp: run)
qed

lemma load_all_once:
  assumes "card (set names) \<le> maxsize"
    and "\<forall>n\<in>set names. \<forall>msg. fs (path_join (data_path self) n) \<noteq> Some (Malformed msg)"
  shows "(\<forall>n. opens_of n (fst (load_all fs self names [])) \<le> 1)
       \<and> (\<forall>n\<in>set names. (\<exists>doc. fs (path_join (data_path self) n) = Some (Document doc))
              \<longrightarrow> map_of (snd (load_all fs self names [])) (ident self, n) \<noteq> None)"
proof -
  have inv: "cache_within (ident self) (set names) []"
    by (simp add: cache_within_def)
  from load_all_within [where fs = fs, OF inv _ assms(1) _ assms(2)]
  have once: "\<forall>m. opens_of m (fst (load_all fs self names [])) \<le> 1"
    and kept: "\<forall>m\<in>set names. (\<exists>doc. fs (path_join (data_path self) m) = Some (Document doc))
                 \<longrightarrow> (ident self, m) \<in> fst ` set (snd (load_all fs self names []))"
    by simp_all
  from kept have "\<forall>n\<in>set names. (\<exists>doc. fs (path_join (data_path self) n) = Some (Document doc))
                    \<longrightarrow> map_of (snd (load_all fs self names [])) (ident self, n) \<noteq> None"
    by (simp add: map_of_eq_None_iff)
  with once show ?thesis by blast
qed

text \<open>
  C9 (amended). The cache is one for the class, keyed by instance and filename, with its
  most recently used entry first. For every sequence of \<open>load_json\<close> calls on one
  \<open>DataLoader\<close> instance that starts from an empty cache, with no call on another
  instance in between, names at most 10 distinct filenames (the size of the cache) and
  meets no malformed file: each distinct filename is read from disk at most once, and
  every file loaded is still in the cache at the end. For every single call, on any
  cache: a call the cache answers returns the cached collection without opening the file
  and makes its entry the most recent; a call it does not answer, for a file that holds
  a document, opens the file and puts the result first, and when the cache is full it
  drops the last entry, the least recently used, whose file a later call therefore reads
  again, and keeps the others; a call that raises leaves the cache as it was; a cache of
  at most 10 entries stays so; \<open>clear_cache\<close> empties the cache.
\<close>

theorem load_json_reads_once:
  "(card (set names) \<le> maxsize
      \<and> (\<forall>n\<in>set names. \<forall>msg. fs (path_join (data_path self) n) \<noteq> Some (Malformed msg))
    \<longrightarrow> (\<forall>n. opens_of n (fst (load_all fs self names [])) \<le> 1)
        \<and> (\<forall>n\<in>set names. (\<exists>doc. fs (path_join (data_path self) n) = Some (Document doc))
               \<longrightarrow> map_of (snd (load_all fs self names [])) (ident self, n) \<noteq> None))
   \<and> (\<forall>cache n v.
         map_of cache (ident self, n) = Some v
         \<longrightarrow> load_json fs cache self n
               = (Inr v, False,
                  ((ident self, n), v) # filter (\<lambda>kv. fst kv \<noteq> (ident self, n)) cache))
   \<and> (\<forall>cache n doc.
         map_of cache (ident self, n) = None
         \<and> fs (path_join (data_path self) n) = Some (Document doc)
         \<and> length cache < maxsize
         \<longrightarrow> (\<exists>v. load_json fs cache self n = (Inr v, True, ((ident self, n), v) # cache)))
   \<and> (\<forall>cache n doc.
         distinct (map fst cache)
         \<and> map_of cache (ident self, n) = None
         \<and> fs (path_join (data_path self) n) = Some (Document doc)
         \<and> maxsize \<le> length cache
         \<longrightarrow> (\<exists>v. load_json fs cache self n
                      = (Inr v, True, ((ident self, n), v) # butlast cache))
             \<and> map_of (snd (snd (load_json fs cache self n))) (fst (last cache)) = None
             \<and> (\<forall>k. k \<noteq> fst (last cache) \<and> k \<noteq> (ident self, n)
                    \<longrightarrow> map_of (snd (snd (load_json fs cache self n))) k = map_of cache k))
   \<and> (\<forall>cache n e.
         fst (load_json fs cache self n) = Inl e
         \<longrightarrow> snd (snd (load_json fs cache self n)) = cache)
   \<and> (\<forall>cache n.
         length cache \<le> maxsize
         \<longrightarrow> length (snd (snd (load_json fs cache self n))) \<le> maxsize)
   \<and> (\<forall>cache. clear_cache cache = [])"
proof -
  have A: "(card (set names) \<le> maxsize
        \<and> (\<forall>n\<in>set names. \<forall>msg. fs (path_join (data_path self) n) \<noteq> Some (Malformed msg))
      \<longrightarrow> (\<forall>n. opens_of n (fst (load_all fs self names [])) \<le> 1)
          \<and> (\<forall>n\<in>set names. (\<exists>doc. fs (path_join (data_path self) n) = Some (Document doc))
                 \<longrightarrow> map_of (snd (load_all fs self names [])) (ident self, n) \<noteq> None))"
    using load_all_once [where fs = fs and self = self and names = names] by blast
  have B: "(\<forall>cache n v.
           map_of cache (ident self, n) = Some v
           \<longrightarrow> load_json fs cache self n
                 = (Inr v, False,
                    ((ident self, n), v) # filter (\<lambda>kv. fst kv \<noteq> (ident self, n)) cache))"
    by (simp add: load_json_hit)
  have C: "(\<forall>cache n doc.
           map_of cache (ident self, n) = None
           \<and> fs (path_join (data_path self) n) = Some (Document doc)
           \<and> length cache < maxsize
           \<longrightarrow> (\<exists>v. load_json fs cache self n = (Inr v, True, ((ident self, n), v) # cache)))"
  proof (intro allI impI)
    fix cache :: lru and n doc
    assume a: "map_of cache (ident self, n) = None
         \<and> fs (path_join (data_path self) n) = Some (Document doc)
         \<and> length cache < maxsize"
    then have "map_of cache (ident self, n) = None"
      and "fs (path_join (data_path self) n) = Some (Document doc)"
      by simp_all
    from load_json_miss_document [where fs = fs, OF this] a
    show "\<exists>v. load_json fs cache self n = (Inr v, True, ((ident self, n), v) # cache)"
      by simp
  qed
  have D: "(\<forall>cache n doc.
           distinct (map fst cache)
           \<and> map_of cache (ident self, n) = None
           \<and> fs (path_join (data_path self) n) = Some (Document doc)
           \<and> maxsize \<le> length cache
           \<longrightarrow> (\<exists>v. load_json fs cache self n
                        = (Inr v, True, ((ident self, n), v) # butlast cache))
               \<and> map_of (snd (snd (load_json fs cache self n))) (fst (last cache)) = None
               \<and> (\<forall>k. k \<noteq> fst (last cache) \<and> k \<noteq> (ident self, n)
                      \<longrightarrow> map_of (snd (snd (load_json fs cache self n))) k = map_of cache k))"
  proof (intro allI impI)
    fix cache :: lru and n doc
    assume a: "distinct (map fst cache)
         \<and> map_of cache (ident self, n) = None
         \<and> fs (path_join (data_path self) n) = Some (Document doc)
         \<and> maxsize \<le> length cache"
    then have "distinct (map fst cache)" and "map_of cache (ident self, n) = None"
      and "fs (path_join (data_path self) n) = Some (Document doc)"
      and "maxsize \<le> length cache"
      by simp_all
    then show "(\<exists>v. load_json fs cache self n
                      = (Inr v, True, ((ident self, n), v) # butlast cache))
             \<and> map_of (snd (snd (load_json fs cache self n))) (fst (last cache)) = None
             \<and> (\<forall>k. k \<noteq> fst (last cache) \<and> k \<noteq> (ident self, n)
                    \<longrightarrow> map_of (snd (snd (load_json fs cache self n))) k = map_of cache k)"
      by (rule load_json_evicts_last)
  qed
  have E: "(\<forall>cache n e.
           fst (load_json fs cache self n) = Inl e
           \<longrightarrow> snd (snd (load_json fs cache self n)) = cache)"
    by (simp add: load_json_raise_keeps_cache)
  have F: "(\<forall>cache n.
           length cache \<le> maxsize
           \<longrightarrow> length (snd (snd (load_json fs cache self n))) \<le> maxsize)"
    by (simp add: load_json_bounded)
  have G: "(\<forall>cache. clear_cache cache = [])"
    by (simp add: clear_cache_def)
  show ?thesis
    by (rule conjI [OF A conjI [OF B conjI [OF C conjI [OF D conjI [OF E conjI [OF F G]]]]]])
qed

lemmas loader_eval = load_json_def load_json_body_def path_join_def empty_arrays_def
  maxsize_def opens_of_def eleven_files_def ten_cached_def Let_def

theorem load_json_reads_once_witness:
  "card (set [''flights.json'', ''hotels.json'', ''flights.json'']) \<le> maxsize
   \<and> empty_arrays (path_join (data_path \<lparr>ident = 0, data_path = ''data/''\<rparr>) ''flights.json'')
       = Some (Document (JList []))
   \<and> empty_arrays (path_join (data_path \<lparr>ident = 0, data_path = ''data/''\<rparr>) ''hotels.json'')
       = Some (Document (JList []))
   \<and> opens_of ''flights.json''
        (fst (load_all empty_arrays \<lparr>ident = 0, data_path = ''data/''\<rparr>
                [''flights.json'', ''hotels.json'', ''flights.json''] [])) \<le> 1
   \<and> fst (load_all empty_arrays \<lparr>ident = 0, data_path = ''data/''\<rparr>
             [''flights.json'', ''hotels.json'', ''flights.json''] [])
       = [(''flights.json'', Inr (JList []), True),
          (''hotels.json'', Inr (JList []), True),
          (''flights.json'', Inr (JList []), False)]
   \<and> map_of ten_cached (ident \<lparr>ident = 0, data_path = ''data/''\<rparr>, ''f0.json'') = Some (JList [])
   \<and> load_json empty_arrays ten_cached \<lparr>ident = 0, data_path = ''data/''\<rparr> ''f0.json''
       = (Inr (JList []), False,
          [((0, ''f0.json''), JList []), ((0, ''f9.json''), JList []),
           ((0, ''f8.json''), JList []), ((0, ''f7.json''), JList []),
           ((0, ''f6.json''), JList []), ((0, ''f5.json''), JList []),
           ((0, ''f4.json''), JList []), ((0, ''f3.json''), JList []),
           ((0, ''f2.json''), JList []), ((0, ''f1.json''), JList [])])
   \<and> distinct (map fst ten_cached)
   \<and> map_of ten_cached (ident \<lparr>ident = 0, data_path = ''data/''\<rparr>, ''f10.json'') = None
   \<and> maxsize \<le> length ten_cached
   \<and> fst (last ten_cached) = (0, ''f0.json'')
   \<and> (\<exists>v. load_json empty_arrays ten_cached \<lparr>ident = 0, data_path = ''data/''\<rparr> ''f10.json''
            = (Inr v, True, ((0, ''f10.json''), v) # butlast ten_cached))
   \<and> map_of (snd (snd (load_json empty_arrays ten_cached \<lparr>ident = 0, data_path = ''data/''\<rparr>
                          ''f10.json'')))
        (0, ''f0.json'') = None
   \<and> map_of (snd (snd (load_json empty_arrays
                          (snd (snd (load_json empty_arrays ten_cached
                                       \<lparr>ident = 0, data_path = ''data/''\<rparr> ''f0.json'')))
                          \<lparr>ident = 0, data_path = ''data/''\<rparr> ''f10.json'')))
        (0, ''f0.json'') = Some (JList [])
   \<and> map_of (snd (snd (load_json empty_arrays
                          (snd (snd (load_json empty_arrays ten_cached
                                       \<lparr>ident = 0, data_path = ''data/''\<rparr> ''f0.json'')))
                          \<lparr>ident = 0, data_path = ''data/''\<rparr> ''f10.json'')))
        (0, ''f1.json'') = None"
proof -
  let ?names = "[''flights.json'', ''hotels.json'', ''flights.json'']"
  let ?self = "\<lparr>ident = 0, data_path = ''data/''\<rparr>"
  note inst = load_json_reads_once [where fs = empty_arrays and self = ?self and names = ?names]
  have h1: "card (set ?names) \<le> maxsize"
    unfolding card_set by (simp add: maxsize_def)
  have h2: "\<forall>n\<in>set ?names. \<forall>msg. empty_arrays (path_join (data_path ?self) n)
                                    \<noteq> Some (Malformed msg)"
    by (simp add: empty_arrays_def)
  have docs: "empty_arrays (path_join (data_path ?self) ''flights.json'') = Some (Document (JList []))"
    "empty_arrays (path_join (data_path ?self) ''hotels.json'') = Some (Document (JList []))"
    "empty_arrays (path_join (data_path ?self) ''f10.json'') = Some (Document (JList []))"
    by (simp_all add: empty_arrays_def)
  have run: "fst (load_all empty_arrays ?self ?names [])
               = [(''flights.json'', Inr (JList []), True),
                  (''hotels.json'', Inr (JList []), True),
                  (''flights.json'', Inr (JList []), False)]"
    by (simp add: loader_eval)
  from inst h1 h2
  have once: "opens_of ''flights.json'' (fst (load_all empty_arrays ?self ?names [])) \<le> 1"
    by blast
  have cached: "map_of ten_cached (ident ?self, ''f0.json'') = Some (JList [])"
    by (simp add: ten_cached_def)
  from inst cached
  have "load_json empty_arrays ten_cached ?self ''f0.json''
          = (Inr (JList []), False,
             ((ident ?self, ''f0.json''), JList [])
               # filter (\<lambda>kv. fst kv \<noteq> (ident ?self, ''f0.json'')) ten_cached)"
    by blast
  then have hit: "load_json empty_arrays ten_cached ?self ''f0.json''
       = (Inr (JList []), False,
          [((0, ''f0.json''), JList []), ((0, ''f9.json''), JList []),
           ((0, ''f8.json''), JList []), ((0, ''f7.json''), JList []),
           ((0, ''f6.json''), JList []), ((0, ''f5.json''), JList []),
           ((0, ''f4.json''), JList []), ((0, ''f3.json''), JList []),
           ((0, ''f2.json''), JList []), ((0, ''f1.json''), JList [])])"
    by (simp add: ten_cached_def)
  have d: "distinct (map fst ten_cached)"
    and new: "map_of ten_cached (ident ?self, ''f10.json'') = None"
    and full: "maxsize \<le> length ten_cached"
    and lru: "fst (last ten_cached) = (0, ''f0.json'')"
    by (simp_all add: ten_cached_def maxsize_def)
  from inst d new docs(3) full
  have evict: "(\<exists>v. load_json empty_arrays ten_cached ?self ''f10.json''
                      = (Inr v, True, ((ident ?self, ''f10.json''), v) # butlast ten_cached))
               \<and> map_of (snd (snd (load_json empty_arrays ten_cached ?self ''f10.json'')))
                    (fst (last ten_cached)) = None"
    by blast
  have touched: "map_of (snd (snd (load_json empty_arrays
                          (snd (snd (load_json empty_arrays ten_cached ?self ''f0.json'')))
                          ?self ''f10.json'')))
                   (0, ''f0.json'') = Some (JList [])"
    "map_of (snd (snd (load_json empty_arrays
                          (snd (snd (load_json empty_arrays ten_cached ?self ''f0.json'')))
                          ?self ''f10.json'')))
                   (0, ''f1.json'') = None"
    unfolding hit by (simp_all add: loader_eval)
  from h1 docs(1,2) once run cached hit d new full lru evict touched
  show ?thesis by simp
qed

text \<open>
  C9 as stated fails: the cache holds 10 entries. After eleven distinct files are loaded
  the first of them has been evicted, with no call of \<open>clear_cache\<close>, and loading it
  again reads it from disk a second time.
\<close>

theorem load_json_eviction_counterexample:
  "opens_of ''f0.json''
     (fst (load_all empty_arrays \<lparr>ident = 0, data_path = ''data/''\<rparr>
             (eleven_files @ [''f0.json'']) []))
     = 2
   \<and> map_of (snd (load_all empty_arrays \<lparr>ident = 0, data_path = ''data/''\<rparr> eleven_files []))
        (0, ''f0.json'')
     = None"
  by (simp add: loader_eval)


end
